theory Spec2Isabelle
  imports Main "HOL-Library.Word"
begin

unbundle bit_operations_syntax

section \<open>Values of the Windows service library used by the wrapper\<close>

text \<open>
  The wrapper is written against \<^verbatim>\<open>golang.org/x/sys/windows/svc\<close>. Its command,
  state and accept codes are 32-bit unsigned integers whose values are the ones of the
  Windows service API; a status and a change request are structs.
\<close>

type_synonym uint32 = "32 word"
type_synonym uintptr = "64 word"

definition svc_Stopped :: uint32 where "svc_Stopped = 1"
definition svc_StartPending :: uint32 where "svc_StartPending = 2"
definition svc_StopPending :: uint32 where "svc_StopPending = 3"
definition svc_Running :: uint32 where "svc_Running = 4"
definition svc_ContinuePending :: uint32 where "svc_ContinuePending = 5"
definition svc_PausePending :: uint32 where "svc_PausePending = 6"
definition svc_Paused :: uint32 where "svc_Paused = 7"

definition svc_Stop :: uint32 where "svc_Stop = 1"
definition svc_Pause :: uint32 where "svc_Pause = 2"
definition svc_Continue :: uint32 where "svc_Continue = 3"
definition svc_Interrogate :: uint32 where "svc_Interrogate = 4"
definition svc_Shutdown :: uint32 where "svc_Shutdown = 5"

definition svc_AcceptStop :: uint32 where "svc_AcceptStop = 1"
definition svc_AcceptPauseAndContinue :: uint32 where "svc_AcceptPauseAndContinue = 2"
definition svc_AcceptShutdown :: uint32 where "svc_AcceptShutdown = 4"

record Status =
  State :: uint32
  Accepts :: uint32
  CheckPoint :: uint32
  WaitHint :: uint32
  ProcessId :: uint32
  Win32ExitCode :: uint32
  ServiceSpecificExitCode :: uint32

text \<open>The zero value of the struct, which a composite literal starts from.\<close>

definition Status_zero :: Status where
  "Status_zero = \<lparr>State = 0, Accepts = 0, CheckPoint = 0, WaitHint = 0, ProcessId = 0,
     Win32ExitCode = 0, ServiceSpecificExitCode = 0\<rparr>"

record ChangeRequest =
  Cmd :: uint32
  EventType :: uint32
  EventData :: uintptr
  CurrentStatus :: Status
  Context :: uintptr

definition time_Millisecond :: nat where "time_Millisecond = 1000000"
definition time_Second :: nat where "time_Second = 1000 * time_Millisecond"

section \<open>Formatting\<close>

text \<open>\<^verbatim>\<open>%d\<close> of an unsigned integer: its decimal digits.\<close>

definition digit :: "nat \<Rightarrow> char" where
  "digit n = ''0123456789'' ! n"

function decimal :: "nat \<Rightarrow> string" where
  "decimal n = (if n < 10 then [digit n] else decimal (n div 10) @ [digit (n mod 10)])"
  by pat_completeness auto
termination
  by (relation "measure id") auto

declare decimal.simps [simp del]

text \<open>\<^verbatim>\<open>strings.Join\<close>.\<close>

fun strings_Join :: "string list \<Rightarrow> string \<Rightarrow> string" where
  "strings_Join [] sep = []"
| "strings_Join [x] sep = x"
| "strings_Join (x # y # xs) sep = x @ sep @ strings_Join (y # xs) sep"

section \<open>The service wrapper\<close>

text \<open>
  The \<^verbatim>\<open>service\<close> field is an interface value whose only method, \<^verbatim>\<open>Schedule\<close>,
  belongs to the caller; what it does is part of the environment below.
\<close>

record ServiceWrapper =
  serviceName :: string
  serviceDisplayName :: string
  serviceDescription :: string
  useExePathAsWorkingDirectory :: bool

section \<open>Execute\<close>

text \<open>
  \<^verbatim>\<open>Execute\<close> talks to three parties: the service control manager through the
  channels \<^verbatim>\<open>r\<close> and \<^verbatim>\<open>changes\<close>, the user task through \<^verbatim>\<open>Schedule\<close>, the
  context and the wait group, and the event log. The model is the sequence of what
  \<^verbatim>\<open>Execute\<close> does, in program order, as a function of what those parties do:

  \<^item> \<open>schedule_result\<close>: what \<^verbatim>\<open>Schedule\<close> returns (\<open>None\<close> is \<^verbatim>\<open>nil\<close>);
  \<^item> \<open>selected\<close>: for each successive \<^verbatim>\<open>select\<close>, the case that fires: the context is
    done, or a change request arrives. When the list is used up nothing fires any more
    and \<^verbatim>\<open>Execute\<close> stays blocked in the \<^verbatim>\<open>select\<close>;
  \<^item> \<open>wg_done\<close>: whether the task's wait group ever reaches zero, that is, whether
    \<^verbatim>\<open>wg.Wait()\<close> returns. Every path calls it at most once.

  A send on \<^verbatim>\<open>changes\<close> is taken to be received by the library.
\<close>

datatype selection = CtxDone | Request ChangeRequest

record env =
  schedule_result :: "string option"
  selected :: "selection list"
  wg_done :: bool

datatype action =
    Send Status
  | CallSchedule
  | Cancel
  | WgWait
  | ElogInfo uint32 string
  | ElogError uint32 string
  | ElogErrorf uint32 string ChangeRequest
  | Sleep nat
  | Received ChangeRequest
  | CtxDoneSeen
  | Return bool uint32
  | BlockedInSelect
  | BlockedInWait

definition cmdsAccepted :: uint32 where
  "cmdsAccepted = svc_AcceptStop OR svc_AcceptShutdown"

text \<open>\<^verbatim>\<open>wg.Wait()\<close> followed by the rest of the path, which runs only if the wait returns.\<close>

definition wg_Wait :: "bool \<Rightarrow> action list \<Rightarrow> action list" where
  "wg_Wait done rest = WgWait # (if done then rest else [BlockedInWait])"

text \<open>The two statements after the loop; \<open>ssec\<close> is never assigned and stays false.\<close>

definition after_loop :: "uint32 \<Rightarrow> action list" where
  "after_loop errno = [Send (Status_zero\<lparr>State := svc_StopPending\<rparr>), Return False errno]"

definition testOutput :: "string list \<Rightarrow> ChangeRequest \<Rightarrow> string" where
  "testOutput args c = strings_Join args ''-'' @ ''-'' @ decimal (unat (Context c))"

fun loop :: "string list \<Rightarrow> bool \<Rightarrow> selection list \<Rightarrow> action list" where
  "loop args done [] = [BlockedInSelect]"
| "loop args done (CtxDone # es) =
     CtxDoneSeen # ElogInfo 1 ''The wrapped service cancelled the execution'' #
     wg_Wait done (after_loop 0)"
| "loop args done (Request c # es) =
     Received c #
     (if Cmd c = svc_Interrogate then
        Send (CurrentStatus c) # Sleep (100 * time_Millisecond) # Send (CurrentStatus c) #
        loop args done es
      else if Cmd c = svc_Stop \<or> Cmd c = svc_Shutdown then
        ElogInfo 1 (testOutput args c) # Cancel # wg_Wait done (after_loop 0)
      else
        ElogErrorf 1 ''unexpected control request #%d'' c # loop args done es)"

definition Execute :: "ServiceWrapper \<Rightarrow> string list \<Rightarrow> env \<Rightarrow> action list" where
  "Execute sw args e =
     Send (Status_zero\<lparr>State := svc_StartPending\<rparr>) # CallSchedule #
     (case schedule_result e of
        Some err \<Rightarrow>
          ElogError 1 (''When scheduling the service '' @ [CHR 0x27] @ serviceName sw @
                       [CHR 0x27] @ '': '' @ err) #
          Cancel # wg_Wait (wg_done e) [Return False 1]
      | None \<Rightarrow>
          Send (Status_zero\<lparr>State := svc_Running, Accepts := cmdsAccepted\<rparr>) #
          loop args (wg_done e) (selected e))"

text \<open>The statuses sent on \<^verbatim>\<open>changes\<close>, in order.\<close>

fun sends :: "action list \<Rightarrow> Status list" where
  "sends [] = []"
| "sends (Send s # as) = s # sends as"
| "sends (a # as) = sends as"

section \<open>The operating system as the management commands see it\<close>

text \<open>
  The management commands call the service manager (\<^verbatim>\<open>svc/mgr\<close>), the event log
  (\<^verbatim>\<open>svc/eventlog\<close>), the file system and the clock. The model threads a world through
  them. The world holds what the operating system keeps (the registered services and
  event-log sources), what the environment decides (which call fails and with which
  error, the status of the service over time, by how much a sleep overruns, the command
  line and the files), and a log of the calls made, each with the error it returned.
  Time passes in \<^verbatim>\<open>time.Sleep\<close> only, and is counted in nanoseconds.

  \<^item> \<open>fault w c t\<close> is the error with which the environment makes the call \<open>c\<close>
    fail at time \<open>t\<close>, if it does;
  \<^item> apart from that, opening a service fails when it is not registered, creating one
    fails when it is, a successful create registers it and a successful delete
    unregisters it; the same for event-log sources;
  \<^item> \<open>status_at w t\<close> is the status that a control or query returns at time \<open>t\<close>;
  \<^item> a sleep of \<open>d\<close> started at \<open>t\<close> lasts \<open>d + oversleep w t\<close>;
  \<^item> \<open>abs_path\<close>, \<open>stat\<close> (an error, or whether the path is a directory) and
    \<open>is_windows_service\<close> are what \<^verbatim>\<open>filepath.Abs\<close>, \<^verbatim>\<open>os.Stat\<close> and
    \<^verbatim>\<open>svc.IsWindowsService\<close> return; reading them is not logged;
  \<^item> \<open>unicode_lower\<close> is what the Go library's \<^verbatim>\<open>strings.Map(unicode.ToLower, s)\<close>
    returns: the UTF-8 decoding, the Unicode case tables and the encoding are the
    library's, and are taken as they come.
\<close>

record Config =
  DisplayName :: string
  Description :: string
  StartType :: uint32

definition mgr_StartAutomatic :: uint32 where "mgr_StartAutomatic = 2"

definition eventlog_Error :: uint32 where "eventlog_Error = 1"
definition eventlog_Warning :: uint32 where "eventlog_Warning = 2"
definition eventlog_Info :: uint32 where "eventlog_Info = 4"

datatype call =
    MgrConnect
  | MgrDisconnect
  | OpenService string
  | CloseService string
  | CreateService string string Config "string list"
  | DeleteService string
  | StartCall string "string list"
  | ControlCall string uint32
  | QueryCall string
  | InstallAsEventCreate string uint32
  | EventlogRemove string
  | EventlogOpen string
  | DebugNew string
  | ElogClose
  | ElogInfoCall uint32 string
  | ElogErrorCall uint32 string
  | SvcRun string
  | DebugRun string
  | SleepCall nat

record world =
  services :: "string set"
  sources :: "string set"
  clock :: nat
  status_at :: "nat \<Rightarrow> Status"
  oversleep :: "nat \<Rightarrow> nat"
  fault :: "call \<Rightarrow> nat \<Rightarrow> string option"
  calls :: "(call \<times> string option) list"
  os_Args :: "string list"
  abs_path :: "string \<Rightarrow> string + string"
  stat :: "string \<Rightarrow> string + bool"
  is_windows_service :: "string + bool"
  unicode_lower :: "string \<Rightarrow> string"
  stderr :: string

text \<open>What a function that may end the process does.\<close>

datatype 'a outcome = Returns 'a | Exits nat | Panics

definition logged :: "call \<Rightarrow> string option \<Rightarrow> world \<Rightarrow> world" where
  "logged c r w = w\<lparr>calls := calls w @ [(c, r)]\<rparr>"

text \<open>A call that does nothing to the world but succeed or fail.\<close>

definition plain_call :: "call \<Rightarrow> world \<Rightarrow> string option \<times> world" where
  "plain_call c w = (let r = fault w c (clock w) in (r, logged c r w))"

definition mgr_Connect :: "world \<Rightarrow> string option \<times> world" where
  "mgr_Connect w = plain_call MgrConnect w"

definition m_Disconnect :: "world \<Rightarrow> world" where
  "m_Disconnect w = snd (plain_call MgrDisconnect w)"

definition m_OpenService :: "string \<Rightarrow> world \<Rightarrow> string option \<times> world" where
  "m_OpenService name w =
     (let r = (case fault w (OpenService name) (clock w) of
                 Some e \<Rightarrow> Some e
               | None \<Rightarrow>
                   if name \<in> services w then None
                   else Some ''The specified service does not exist as an installed service.'')
      in (r, logged (OpenService name) r w))"

definition s_Close :: "string \<Rightarrow> world \<Rightarrow> world" where
  "s_Close name w = snd (plain_call (CloseService name) w)"

definition m_CreateService ::
  "string \<Rightarrow> string \<Rightarrow> Config \<Rightarrow> string list \<Rightarrow> world \<Rightarrow> string option \<times> world" where
  "m_CreateService name exepath c args w =
     (let r = (case fault w (CreateService name exepath c args) (clock w) of
                 Some e \<Rightarrow> Some e
               | None \<Rightarrow>
                   if name \<in> services w then Some ''The specified service already exists.''
                   else None);
          w' = logged (CreateService name exepath c args) r w
      in (r, if r = None then w'\<lparr>services := insert name (services w')\<rparr> else w'))"

definition s_Delete :: "string \<Rightarrow> world \<Rightarrow> string option \<times> world" where
  "s_Delete name w =
     (let r = fault w (DeleteService name) (clock w);
          w' = logged (DeleteService name) r w
      in (r, if r = None then w'\<lparr>services := services w' - {name}\<rparr> else w'))"

definition s_Start :: "string \<Rightarrow> string list \<Rightarrow> world \<Rightarrow> string option \<times> world" where
  "s_Start name args w = plain_call (StartCall name args) w"

definition s_Control :: "string \<Rightarrow> uint32 \<Rightarrow> world \<Rightarrow> (string + Status) \<times> world" where
  "s_Control name c w =
     (case plain_call (ControlCall name c) w of
        (Some e, w') \<Rightarrow> (Inl e, w')
      | (None, w') \<Rightarrow> (Inr (status_at w' (clock w')), w'))"

definition s_Query :: "string \<Rightarrow> world \<Rightarrow> (string + Status) \<times> world" where
  "s_Query name w =
     (case plain_call (QueryCall name) w of
        (Some e, w') \<Rightarrow> (Inl e, w')
      | (None, w') \<Rightarrow> (Inr (status_at w' (clock w')), w'))"

definition eventlog_InstallAsEventCreate ::
  "string \<Rightarrow> uint32 \<Rightarrow> world \<Rightarrow> string option \<times> world" where
  "eventlog_InstallAsEventCreate src types w =
     (let r = fault w (InstallAsEventCreate src types) (clock w);
          w' = logged (InstallAsEventCreate src types) r w
      in (r, if r = None then w'\<lparr>sources := insert src (sources w')\<rparr> else w'))"

definition eventlog_Remove :: "string \<Rightarrow> world \<Rightarrow> string option \<times> world" where
  "eventlog_Remove src w =
     (let r = fault w (EventlogRemove src) (clock w);
          w' = logged (EventlogRemove src) r w
      in (r, if r = None then w'\<lparr>sources := sources w' - {src}\<rparr> else w'))"








definition time_Now :: "world \<Rightarrow> nat" where
  "time_Now w = clock w"

definition time_Sleep :: "nat \<Rightarrow> world \<Rightarrow> world" where
  "time_Sleep d w = logged (SleepCall d) None (w\<lparr>clock := clock w + d + oversleep w (clock w)\<rparr>)"

section \<open>Strings and paths\<close>




text \<open>\<^verbatim>\<open>filepath.Ext\<close> on Windows: scan back to the last dot of the last path element.\<close>

fun ext_scan :: "string \<Rightarrow> string \<Rightarrow> string" where
  "ext_scan [] acc = []"
| "ext_scan (c # cs) acc =
     (if c = CHR 0x5C \<or> c = CHR ''/'' then []
      else if c = CHR ''.'' then c # acc
      else ext_scan cs (c # acc))"

definition filepath_Ext :: "string \<Rightarrow> string" where
  "filepath_Ext path = ext_scan (rev path) []"


section \<open>Installing and removing the service\<close>

text \<open>
  \<^verbatim>\<open>ExePath\<close> reads \<^verbatim>\<open>os.Args[0]\<close>, which panics on an empty argument list, and
  looks the program up, with \<^verbatim>\<open>.exe\<close> appended when the path has no extension.
\<close>

definition stat_file :: "world \<Rightarrow> string \<Rightarrow> string + string" where
  "stat_file w p =
     (case stat w p of
        Inl err \<Rightarrow> Inl err
      | Inr isDir \<Rightarrow> if \<not> isDir then Inr p else Inl (p @ '' is directory''))"

definition ExePath :: "world \<Rightarrow> (string + string) outcome" where
  "ExePath w =
     (case os_Args w of
        [] \<Rightarrow> Panics
      | prog # _ \<Rightarrow>
          (case abs_path w prog of
             Inl err \<Rightarrow> Returns (Inl err)
           | Inr p \<Rightarrow>
               (case stat_file w p of
                  Inr found \<Rightarrow> Returns (Inr found)
                | Inl err \<Rightarrow>
                    if filepath_Ext p = ''''
                    then Returns (stat_file w (p @ ''.exe''))
                    else Returns (Inl err))))"

definition InstallService :: "ServiceWrapper \<Rightarrow> world \<Rightarrow> string option outcome \<times> world" where
  "InstallService sw w =
     (case ExePath w of
        Panics \<Rightarrow> (Panics, w)
      | Exits n \<Rightarrow> (Exits n, w)
      | Returns (Inl err) \<Rightarrow> (Returns (Some err), w)
      | Returns (Inr exepath) \<Rightarrow>
          (case mgr_Connect w of
             (Some err, w1) \<Rightarrow> (Returns (Some err), w1)
           | (None, w1) \<Rightarrow>
               (case m_OpenService (serviceName sw) w1 of
                  (None, w2) \<Rightarrow>
                    (Returns (Some (''service '' @ serviceName sw @ '' already exists'')),
                     m_Disconnect (s_Close (serviceName sw) w2))
                | (Some _, w2) \<Rightarrow>
                    (case m_CreateService (serviceName sw) exepath
                            \<lparr>DisplayName = serviceDisplayName sw,
                             Description = serviceDescription sw,
                             StartType = mgr_StartAutomatic\<rparr>
                            [''is'', ''auto-started''] w2 of
                       (Some err, w3) \<Rightarrow> (Returns (Some err), m_Disconnect w3)
                     | (None, w3) \<Rightarrow>
                         (case eventlog_InstallAsEventCreate (serviceName sw)
                                 (eventlog_Error OR eventlog_Warning OR eventlog_Info) w3 of
                            (Some err, w4) \<Rightarrow>
                              (Returns (Some (''SetupEventLogSource() failed: '' @ err)),
                               m_Disconnect (s_Close (serviceName sw)
                                 (snd (s_Delete (serviceName sw) w4))))
                          | (None, w4) \<Rightarrow>
                              (Returns None,
                               m_Disconnect (s_Close (serviceName sw) w4)))))))"

definition RemoveService :: "ServiceWrapper \<Rightarrow> world \<Rightarrow> string option \<times> world" where
  "RemoveService sw w =
     (case mgr_Connect w of
        (Some err, w1) \<Rightarrow> (Some err, w1)
      | (None, w1) \<Rightarrow>
          (case m_OpenService (serviceName sw) w1 of
             (Some _, w2) \<Rightarrow>
               (Some (''service '' @ serviceName sw @ '' is not installed''), m_Disconnect w2)
           | (None, w2) \<Rightarrow>
               (case s_Delete (serviceName sw) w2 of
                  (Some err, w3) \<Rightarrow>
                    (Some err, m_Disconnect (s_Close (serviceName sw) w3))
                | (None, w3) \<Rightarrow>
                    (case eventlog_Remove (serviceName sw) w3 of
                       (Some err, w4) \<Rightarrow>
                         (Some (''RemoveEventLogSource() failed: '' @ err),
                          m_Disconnect (s_Close (serviceName sw) w4))
                     | (None, w4) \<Rightarrow>
                         (None, m_Disconnect (s_Close (serviceName sw) w4))))))"

section \<open>Starting and controlling the service\<close>

definition StartService :: "ServiceWrapper \<Rightarrow> world \<Rightarrow> string option \<times> world" where
  "StartService sw w =
     (case mgr_Connect w of
        (Some err, w1) \<Rightarrow> (Some err, w1)
      | (None, w1) \<Rightarrow>
          (case m_OpenService (serviceName sw) w1 of
             (Some err, w2) \<Rightarrow> (Some (''could not access service: '' @ err), m_Disconnect w2)
           | (None, w2) \<Rightarrow>
               (case s_Start (serviceName sw) [''is'', ''manual-started''] w2 of
                  (Some err, w3) \<Rightarrow>
                    (Some (''could not start service: '' @ err),
                     m_Disconnect (s_Close (serviceName sw) w3))
                | (None, w3) \<Rightarrow> (None, m_Disconnect (s_Close (serviceName sw) w3)))))"

text \<open>
  The loop of \<^verbatim>\<open>ControlService\<close>, from the status it starts with. Every round that
  does not return sleeps, so the clock moves towards the deadline and the loop ends.
\<close>

function await :: "string \<Rightarrow> uint32 \<Rightarrow> nat \<Rightarrow> Status \<Rightarrow> world \<Rightarrow> string option \<times> world" where
  "await name to timeout status w =
     (if State status \<noteq> to then
        if timeout < time_Now w then
          (Some (''timeout waiting for service to go to state='' @ decimal (unat to)), w)
        else
          (case s_Query name (time_Sleep (300 * time_Millisecond) w) of
             (Inl err, w') \<Rightarrow> (Some (''could not retrieve service status: '' @ err), w')
           | (Inr status', w') \<Rightarrow> await name to timeout status' w')
      else (None, w))"
  by pat_completeness auto
termination
  by (relation "measure (\<lambda>(name, to, timeout, status, w). Suc timeout - clock w)")
     (auto simp: s_Query_def plain_call_def logged_def time_Sleep_def Let_def
        time_Now_def time_Millisecond_def split: option.splits)

declare await.simps [simp del]

definition ControlService ::
  "ServiceWrapper \<Rightarrow> uint32 \<Rightarrow> uint32 \<Rightarrow> world \<Rightarrow> string option \<times> world" where
  "ControlService sw c to w =
     (case mgr_Connect w of
        (Some err, w1) \<Rightarrow> (Some err, w1)
      | (None, w1) \<Rightarrow>
          (case m_OpenService (serviceName sw) w1 of
             (Some err, w2) \<Rightarrow> (Some (''could not access service: '' @ err), m_Disconnect w2)
           | (None, w2) \<Rightarrow>
               (case s_Control (serviceName sw) c w2 of
                  (Inl err, w3) \<Rightarrow>
                    (Some (''could not send control='' @ decimal (unat c) @ '': '' @ err),
                     m_Disconnect (s_Close (serviceName sw) w3))
                | (Inr status, w3) \<Rightarrow>
                    (case await (serviceName sw) to (time_Now w3 + 10 * time_Second) status w3 of
                       (r, w4) \<Rightarrow> (r, m_Disconnect (s_Close (serviceName sw) w4))))))"

text \<open>
  The loop told by rounds. \<open>poll_time w k\<close> is the time at which the loop looks at the state
  for the \<open>k\<close>-th time after the control: when the control returns, and then after each
  sleep of 300 ms (300000000 ns) and whatever the sleep overruns. In round \<open>k\<close> the loop
  \<open>polls_on\<close> when the state seen is not the target, the deadline has not passed and the
  next query succeeds; \<open>ends_at\<close> says how it ends in the first round in which it does not.
\<close>

primrec poll_time :: "world \<Rightarrow> nat \<Rightarrow> nat" where
  "poll_time w 0 = clock w"
| "poll_time w (Suc k) = poll_time w k + 300000000 + oversleep w (poll_time w k)"

definition polls_on :: "world \<Rightarrow> string \<Rightarrow> uint32 \<Rightarrow> nat \<Rightarrow> nat \<Rightarrow> bool" where
  "polls_on w name to tmo k =
     (State (status_at w (poll_time w k)) \<noteq> to \<and> poll_time w k \<le> tmo \<and>
      fault w (QueryCall name) (poll_time w (Suc k)) = None)"

definition ends_at ::
  "world \<Rightarrow> string \<Rightarrow> uint32 \<Rightarrow> nat \<Rightarrow> nat \<Rightarrow> string option \<Rightarrow> world \<Rightarrow> bool" where
  "ends_at w name to tmo n r w' =
     (if State (status_at w (poll_time w n)) = to then
        r = None \<and> clock w' = poll_time w n \<and>
        calls w' = calls w @
          concat (replicate n [(SleepCall 300000000, None), (QueryCall name, None)])
      else if tmo < poll_time w n then
        r = Some (''timeout waiting for service to go to state='' @ decimal (unat to)) \<and>
        clock w' = poll_time w n \<and>
        calls w' = calls w @
          concat (replicate n [(SleepCall 300000000, None), (QueryCall name, None)])
      else
        (case fault w (QueryCall name) (poll_time w (Suc n)) of
           None \<Rightarrow> False
         | Some e \<Rightarrow>
             r = Some (''could not retrieve service status: '' @ e) \<and>
             clock w' = poll_time w (Suc n) \<and>
             calls w' = calls w @
               concat (replicate n [(SleepCall 300000000, None), (QueryCall name, None)]) @
               [(SleepCall 300000000, None), (QueryCall name, Some e)]))"

section \<open>Running the service and the command line\<close>


text \<open>
  \<^verbatim>\<open>usage\<close> prints and leaves the process with exit code 2; it never returns.
  Its arguments are evaluated first, and \<^verbatim>\<open>os.Args[0]\<close> panics on an empty list.
\<close>

definition usage_text :: "string \<Rightarrow> string \<Rightarrow> string" where
  "usage_text errmsg prog =
     errmsg @ [CHR 0x0A, CHR 0x0A] @
     ''usage: '' @ prog @ '' <command>'' @ [CHR 0x0A] @
     ''       where <command> is one of'' @ [CHR 0x0A] @
     ''       install, remove, debug, start, stop, pause or continue.'' @ [CHR 0x0A]"

definition usage :: "string \<Rightarrow> world \<Rightarrow> string option outcome \<times> world" where
  "usage errmsg w =
     (case os_Args w of
        [] \<Rightarrow> (Panics, w)
      | prog # _ \<Rightarrow> (Exits 2, w\<lparr>stderr := stderr w @ usage_text errmsg prog\<rparr>))"





section \<open>Reading the log of calls\<close>

text \<open>
  The calls whose errors the operations drop: they run deferred, or just before a return.
\<close>

fun cleanup :: "call \<Rightarrow> bool" where
  "cleanup MgrDisconnect = True"
| "cleanup (CloseService name) = True"
| "cleanup c = False"

text \<open>Once a call has failed, the same call is not made again.\<close>

fun not_retried :: "(call \<times> string option) list \<Rightarrow> bool" where
  "not_retried [] = True"
| "not_retried ((c, r) # l) = ((r = None \<or> c \<notin> fst ` set l) \<and> not_retried l)"

text \<open>
  The text that the operations put in front of the error of a failed call, as their
  \<^verbatim>\<open>fmt.Errorf\<close> formats have it. A failed connect, create or delete is returned as
  it is, with nothing in front.
\<close>

fun error_context :: "call \<Rightarrow> string" where
  "error_context (OpenService name) = ''could not access service: ''"
| "error_context (StartCall name args) = ''could not start service: ''"
| "error_context (ControlCall name c) = ''could not send control='' @ decimal (unat c) @ '': ''"
| "error_context (QueryCall name) = ''could not retrieve service status: ''"
| "error_context (InstallAsEventCreate src types) = ''SetupEventLogSource() failed: ''"
| "error_context (EventlogRemove src) = ''RemoveEventLogSource() failed: ''"
| "error_context c = ''''"


section \<open>Matching a verb whatever the case\<close>



section \<open>Sample inputs\<close>

definition ex_sw :: ServiceWrapper where
  "ex_sw = \<lparr>serviceName = ''demo'', serviceDisplayName = ''Demo service'',
     serviceDescription = ''A demonstration'', useExePathAsWorkingDirectory = False\<rparr>"

text \<open>A change request as the library builds it while the service is running.\<close>

definition ex_request :: "uint32 \<Rightarrow> ChangeRequest" where
  "ex_request cmd = \<lparr>Cmd = cmd, EventType = 0, EventData = 0,
     CurrentStatus = Status_zero\<lparr>State := svc_Running, Accepts := cmdsAccepted\<rparr>,
     Context = 7\<rparr>"

text \<open>
  A machine on which the service is not installed, no call fails, the program is found
  at the path given on the command line, and the service, once there, reports running.
  Of the Unicode mapping it holds one entry, which is the library's: an argument that
  starts with U+0130 (capital I with a dot above, the bytes C4 B0 in UTF-8), whose small
  letter is \<open>i\<close>.
\<close>

definition ex_unicode_lower :: "string \<Rightarrow> string" where
  "ex_unicode_lower s =
     (if s = [CHR 0xC4, CHR 0xB0] @ ''nstall'' then ''install'' else s)"

definition ex_world :: world where
  "ex_world = \<lparr>services = {}, sources = {}, clock = 0,
     status_at = (\<lambda>t. Status_zero\<lparr>State := svc_Running, Accepts := cmdsAccepted\<rparr>),
     oversleep = (\<lambda>t. 0), fault = (\<lambda>c t. None), calls = [],
     os_Args = [''C:/svc/demo.exe''], abs_path = Inr,
     stat = (\<lambda>p. if p = ''C:/svc/demo.exe'' then Inr False else Inl ''file not found''),
     is_windows_service = Inr False, unicode_lower = ex_unicode_lower, stderr = []\<rparr>"

text \<open>An environment in which exactly the listed calls fail, with the given error.\<close>

definition failing :: "call list \<Rightarrow> string \<Rightarrow> call \<Rightarrow> nat \<Rightarrow> string option" where
  [simp]: "failing cs err c t = (if c \<in> set cs then Some err else None)"

text \<open>A service that is still starting, and one that is stopping and has stopped at \<open>d\<close>.\<close>

definition ex_starting :: "nat \<Rightarrow> Status" where
  [simp]: "ex_starting t = Status_zero\<lparr>State := svc_StartPending\<rparr>"

definition stops_at :: "nat \<Rightarrow> nat \<Rightarrow> Status" where
  [simp]: "stops_at d t = Status_zero\<lparr>State := if t < d then svc_StopPending else svc_Stopped\<rparr>"

section \<open>Properties of Execute\<close>

lemmas svc_consts =
  svc_Stopped_def svc_StartPending_def svc_StopPending_def svc_Running_def
  svc_ContinuePending_def svc_PausePending_def svc_Paused_def
  svc_Stop_def svc_Pause_def svc_Continue_def svc_Interrogate_def svc_Shutdown_def
  svc_AcceptStop_def svc_AcceptPauseAndContinue_def svc_AcceptShutdown_def

text \<open>
  Wherever a received request stands in the trace of the loop, what follows it is the
  branch of the switch for its command; after the branches that do not break, the loop
  goes on with the selections that are left.
\<close>

lemma loop_after_Received:
  "loop args d es = pre @ Received c # post \<Longrightarrow>
   \<exists>es0 es'. es = es0 @ Request c # es' \<and> post =
     (if Cmd c = svc_Interrogate then
        Send (CurrentStatus c) # Sleep (100 * time_Millisecond) # Send (CurrentStatus c) #
        loop args d es'
      else if Cmd c = svc_Stop \<or> Cmd c = svc_Shutdown then
        ElogInfo 1 (testOutput args c) # Cancel # wg_Wait d (after_loop 0)
      else
        ElogErrorf 1 ''unexpected control request #%d'' c # loop args d es')"
proof (induction args d es arbitrary: pre rule: loop.induct)
  case (1 args d)
  then show ?case by (simp add: Cons_eq_append_conv append_eq_Cons_conv)
next
  case (2 args d es)
  then show ?case
    by (auto simp: wg_Wait_def after_loop_def Cons_eq_append_conv append_eq_Cons_conv
        split: if_splits)
next
  case (3 args d c' es)
  let ?rest = "\<lambda>es'. if Cmd c = svc_Interrogate then
        Send (CurrentStatus c) # Sleep (100 * time_Millisecond) # Send (CurrentStatus c) #
        loop args d es'
      else if Cmd c = svc_Stop \<or> Cmd c = svc_Shutdown then
        ElogInfo 1 (testOutput args c) # Cancel # wg_Wait d (after_loop 0)
      else
        ElogErrorf 1 ''unexpected control request #%d'' c # loop args d es'"
  have step: "\<exists>es0 es'. Request c' # es = es0 @ Request c # es' \<and> post = ?rest es'"
    if "\<exists>es0 es'. es = es0 @ Request c # es' \<and> post = ?rest es'"
  proof -
    from that obtain es0 es' where "es = es0 @ Request c # es'" and p: "post = ?rest es'"
      by blast
    then have "Request c' # es = (Request c' # es0) @ Request c # es'" by simp
    with p show ?thesis by blast
  qed
  show ?case
  proof (cases pre)
    case Nil
    with 3(3) have "c' = c" and "post = ?rest es" by auto
    then have "Request c' # es = [] @ Request c # es \<and> post = ?rest es" by simp
    then show ?thesis by blast
  next
    case (Cons a pre1)
    note pre = Cons
    show ?thesis
    proof (cases "Cmd c' = svc_Interrogate")
      case True
      with 3(3) pre have "\<exists>pre'. loop args d es = pre' @ Received c # post"
        by (auto simp: Cons_eq_append_conv append_eq_Cons_conv)
      with 3(1) True have "\<exists>es0 es'. es = es0 @ Request c # es' \<and> post = ?rest es'"
        by blast
      then show ?thesis by (rule step)
    next
      case ni: False
      show ?thesis
      proof (cases "Cmd c' = svc_Stop \<or> Cmd c' = svc_Shutdown")
        case True
        with 3(3) pre ni show ?thesis
          by (auto simp: wg_Wait_def after_loop_def Cons_eq_append_conv append_eq_Cons_conv
              split: if_splits)
      next
        case False
        with 3(3) pre ni have "\<exists>pre'. loop args d es = pre' @ Received c # post"
          by (auto simp: Cons_eq_append_conv append_eq_Cons_conv)
        with 3(2) ni False have "\<exists>es0 es'. es = es0 @ Request c # es' \<and> post = ?rest es'"
          by blast
        then show ?thesis by (rule step)
      qed
    qed
  qed
qed

text \<open>A request can only be received once the loop has been entered.\<close>

lemma Execute_Received_in_loop:
  assumes "Execute sw args e = pre @ Received c # post"
  shows "\<exists>pre'. pre = Send (Status_zero\<lparr>State := svc_StartPending\<rparr>) # CallSchedule #
            Send (Status_zero\<lparr>State := svc_Running, Accepts := cmdsAccepted\<rparr>) # pre' \<and>
          loop args (wg_done e) (selected e) = pre' @ Received c # post"
proof (cases "schedule_result e")
  case None
  with assms show ?thesis
    by (auto simp: Execute_def Cons_eq_append_conv)
next
  case (Some err)
  with assms show ?thesis
    by (auto simp: Execute_def wg_Wait_def Cons_eq_append_conv append_eq_Cons_conv
        split: if_splits)
qed

lemma Execute_after_Received:
  assumes "Execute sw args e = pre @ Received c # post"
  shows "\<exists>es0 es'. selected e = es0 @ Request c # es' \<and> post =
     (if Cmd c = svc_Interrogate then
        Send (CurrentStatus c) # Sleep (100 * time_Millisecond) # Send (CurrentStatus c) #
        loop args (wg_done e) es'
      else if Cmd c = svc_Stop \<or> Cmd c = svc_Shutdown then
        ElogInfo 1 (testOutput args c) # Cancel # wg_Wait (wg_done e) (after_loop 0)
      else
        ElogErrorf 1 ''unexpected control request #%d'' c # loop args (wg_done e) es')"
proof -
  from Execute_Received_in_loop [OF assms] obtain pre'
    where "loop args (wg_done e) (selected e) = pre' @ Received c # post" by blast
  then show ?thesis by (rule loop_after_Received)
qed

text \<open>If the loop is left by a return, the stop-pending status was sent just before.\<close>

lemma loop_Return:
  "Return ssec errno \<in> set (loop args d es) \<Longrightarrow>
   ssec = False \<and> errno = 0 \<and> (\<exists>pre. loop args d es = pre @ after_loop 0)"
proof (induction args d es rule: loop.induct)
  case (1 args d)
  then show ?case by simp
next
  case (2 args d es)
  then have d by (auto simp: wg_Wait_def after_loop_def split: if_splits)
  moreover from 2 have "ssec = False \<and> errno = 0"
    by (auto simp: wg_Wait_def after_loop_def split: if_splits)
  moreover from \<open>d\<close> have "loop args d (CtxDone # es) =
      [CtxDoneSeen, ElogInfo 1 ''The wrapped service cancelled the execution'', WgWait] @
      after_loop 0"
    by (simp add: wg_Wait_def)
  ultimately show ?case by blast
next
  case (3 args d c es)
  show ?case
  proof (cases "Cmd c = svc_Interrogate")
    case True
    with 3 have "ssec = False \<and> errno = 0 \<and> (\<exists>pre. loop args d es = pre @ after_loop 0)"
      by simp
    then obtain pre where "ssec = False" "errno = 0" "loop args d es = pre @ after_loop 0"
      by blast
    with True have "loop args d (Request c # es) =
        (Received c # Send (CurrentStatus c) # Sleep (100 * time_Millisecond) #
         Send (CurrentStatus c) # pre) @ after_loop 0"
      by simp
    with \<open>ssec = False\<close> \<open>errno = 0\<close> show ?thesis by blast
  next
    case ni: False
    show ?thesis
    proof (cases "Cmd c = svc_Stop \<or> Cmd c = svc_Shutdown")
      case True
      with 3(3) ni have d and "ssec = False \<and> errno = 0"
        by (auto simp: wg_Wait_def after_loop_def split: if_splits)
      moreover from \<open>d\<close> True ni have "loop args d (Request c # es) =
          [Received c, ElogInfo 1 (testOutput args c), Cancel, WgWait] @ after_loop 0"
        by (simp add: wg_Wait_def)
      ultimately show ?thesis by blast
    next
      case False
      with 3 ni have "ssec = False \<and> errno = 0 \<and> (\<exists>pre. loop args d es = pre @ after_loop 0)"
        by simp
      then obtain pre where "ssec = False" "errno = 0" "loop args d es = pre @ after_loop 0"
        by blast
      with False ni have "loop args d (Request c # es) =
          (Received c # ElogErrorf 1 ''unexpected control request #%d'' c # pre) @ after_loop 0"
        by simp
      with \<open>ssec = False\<close> \<open>errno = 0\<close> show ?thesis by blast
    qed
  qed
qed

lemma sends_append: "sends (xs @ ys) = sends xs @ sends ys"
  by (induction xs rule: sends.induct) simp_all


lemmas ex_simps =
  Execute_def wg_Wait_def after_loop_def testOutput_def decimal.simps digit_def
  ex_sw_def ex_request_def Status_zero_def cmdsAccepted_def svc_consts

text \<open>
  Claim C1. In every execution in which a Stop or Shutdown request is received, what
  Execute does from there on is: log the test output, cancel the task's context, call
  \<^verbatim>\<open>wg.Wait()\<close>, and only if that wait returns (the task has finished) send the
  stop-pending status and return. Nothing is sent while the task has not finished.
\<close>

theorem Execute_stop_cancels_and_joins:
  assumes "Execute sw args e = pre @ Received c # post"
    and "Cmd c = svc_Stop \<or> Cmd c = svc_Shutdown"
  shows "post = ElogInfo 1 (testOutput args c) # Cancel # WgWait #
           (if wg_done e
            then [Send (Status_zero\<lparr>State := svc_StopPending\<rparr>), Return False 0]
            else [BlockedInWait])"
proof -
  have "Cmd c \<noteq> svc_Interrogate"
    using assms(2) by (auto simp: svc_consts)
  with Execute_after_Received [OF assms(1)] assms(2) show ?thesis
    by (auto simp: wg_Wait_def after_loop_def)
qed

theorem Execute_stop_cancels_and_joins_witness:
  "Execute ex_sw [''a'', ''b'']
     \<lparr>schedule_result = None, selected = [Request (ex_request svc_Shutdown)], wg_done = True\<rparr> =
   [Send (Status_zero\<lparr>State := svc_StartPending\<rparr>), CallSchedule,
    Send (Status_zero\<lparr>State := svc_Running, Accepts := cmdsAccepted\<rparr>)] @
   Received (ex_request svc_Shutdown) #
   [ElogInfo 1 ''a-b-7'', Cancel, WgWait, Send (Status_zero\<lparr>State := svc_StopPending\<rparr>),
    Return False 0] \<and>
   (Cmd (ex_request svc_Shutdown) = svc_Stop \<or> Cmd (ex_request svc_Shutdown) = svc_Shutdown) \<and>
   [ElogInfo 1 ''a-b-7'', Cancel, WgWait, Send (Status_zero\<lparr>State := svc_StopPending\<rparr>),
    Return False 0] =
   ElogInfo 1 (testOutput [''a'', ''b''] (ex_request svc_Shutdown)) # Cancel # WgWait #
     (if wg_done \<lparr>schedule_result = None, selected = [Request (ex_request svc_Shutdown)],
                  wg_done = True\<rparr>
      then [Send (Status_zero\<lparr>State := svc_StopPending\<rparr>), Return False 0]
      else [BlockedInWait])"
proof -
  have h1: "Execute ex_sw [''a'', ''b'']
     \<lparr>schedule_result = None, selected = [Request (ex_request svc_Shutdown)], wg_done = True\<rparr> =
   [Send (Status_zero\<lparr>State := svc_StartPending\<rparr>), CallSchedule,
    Send (Status_zero\<lparr>State := svc_Running, Accepts := cmdsAccepted\<rparr>)] @
   Received (ex_request svc_Shutdown) #
   [ElogInfo 1 ''a-b-7'', Cancel, WgWait, Send (Status_zero\<lparr>State := svc_StopPending\<rparr>),
    Return False 0]"
    by (simp add: ex_simps)
  have h2: "Cmd (ex_request svc_Shutdown) = svc_Stop \<or> Cmd (ex_request svc_Shutdown) = svc_Shutdown"
    by (simp add: ex_request_def)
  from Execute_stop_cancels_and_joins [OF h1 h2] h1 h2 show ?thesis by blast
qed

text \<open>
  Claim C2, as stated, fails: when Schedule returns an error, Execute returns after
  having sent the start-pending status only; neither running nor stop-pending is sent.
\<close>

theorem Execute_status_sequence_counterexample:
  "Execute ex_sw [] \<lparr>schedule_result = Some ''no task'', selected = [], wg_done = True\<rparr> =
     [Send (Status_zero\<lparr>State := svc_StartPending\<rparr>), CallSchedule,
      ElogError 1 ''When scheduling the service 'demo': no task'', Cancel, WgWait,
      Return False 1] \<and>
   sends (Execute ex_sw [] \<lparr>schedule_result = Some ''no task'', selected = [], wg_done = True\<rparr>) =
     [Status_zero\<lparr>State := svc_StartPending\<rparr>] \<and>
   last (sends (Execute ex_sw []
       \<lparr>schedule_result = Some ''no task'', selected = [], wg_done = True\<rparr>)) \<noteq>
     Status_zero\<lparr>State := svc_StopPending\<rparr>"
  by (simp add: ex_simps)

text \<open>
  Claim C2, amended. In every execution in which Schedule returns no error, the
  start-pending status is the first thing sent, the running status is sent next and
  before the command loop is entered, and if Execute returns, the stop-pending status is
  the last status sent, immediately before the return (with \<open>ssec\<close> false and errno 0).
\<close>

theorem Execute_status_sequence:
  assumes "schedule_result e = None"
  shows "Execute sw args e =
           Send (Status_zero\<lparr>State := svc_StartPending\<rparr>) # CallSchedule #
           Send (Status_zero\<lparr>State := svc_Running, Accepts := cmdsAccepted\<rparr>) #
           loop args (wg_done e) (selected e) \<and>
         (\<exists>rest. sends (Execute sw args e) =
           Status_zero\<lparr>State := svc_StartPending\<rparr> #
           Status_zero\<lparr>State := svc_Running, Accepts := cmdsAccepted\<rparr> # rest) \<and>
         (Return ssec errno \<in> set (Execute sw args e) \<longrightarrow>
           ssec = False \<and> errno = 0 \<and>
           (\<exists>pre. Execute sw args e =
              pre @ [Send (Status_zero\<lparr>State := svc_StopPending\<rparr>), Return False 0]) \<and>
           last (sends (Execute sw args e)) = Status_zero\<lparr>State := svc_StopPending\<rparr>)"
proof -
  let ?head = "[Send (Status_zero\<lparr>State := svc_StartPending\<rparr>), CallSchedule,
                Send (Status_zero\<lparr>State := svc_Running, Accepts := cmdsAccepted\<rparr>)]"
  let ?l = "loop args (wg_done e) (selected e)"
  have ex: "Execute sw args e = ?head @ ?l"
    using assms by (simp add: Execute_def)
  have s: "\<exists>rest. sends (Execute sw args e) =
           Status_zero\<lparr>State := svc_StartPending\<rparr> #
           Status_zero\<lparr>State := svc_Running, Accepts := cmdsAccepted\<rparr> # rest"
    by (simp add: ex)
  have r: "ssec = False \<and> errno = 0 \<and>
           (\<exists>pre. Execute sw args e =
              pre @ [Send (Status_zero\<lparr>State := svc_StopPending\<rparr>), Return False 0]) \<and>
           last (sends (Execute sw args e)) = Status_zero\<lparr>State := svc_StopPending\<rparr>"
    if "Return ssec errno \<in> set (Execute sw args e)"
  proof -
    from that have "Return ssec errno \<in> set ?l" by (simp add: ex)
    from loop_Return [OF this] obtain pre
      where v: "ssec = False" "errno = 0" and l: "?l = pre @ after_loop 0" by blast
    have e2: "Execute sw args e =
        (?head @ pre) @ [Send (Status_zero\<lparr>State := svc_StopPending\<rparr>), Return False 0]"
      by (simp add: ex l after_loop_def)
    have "sends (Execute sw args e) =
        sends (?head @ pre) @ [Status_zero\<lparr>State := svc_StopPending\<rparr>]"
      by (simp only: e2 sends_append) simp
    then have "last (sends (Execute sw args e)) = Status_zero\<lparr>State := svc_StopPending\<rparr>"
      by simp
    with v e2 show ?thesis by blast
  qed
  from ex have "Execute sw args e =
           Send (Status_zero\<lparr>State := svc_StartPending\<rparr>) # CallSchedule #
           Send (Status_zero\<lparr>State := svc_Running, Accepts := cmdsAccepted\<rparr>) #
           loop args (wg_done e) (selected e)"
    by simp
  with s r show ?thesis by blast
qed

theorem Execute_status_sequence_witness:
  "schedule_result \<lparr>schedule_result = None,
       selected = [Request (ex_request svc_Interrogate), Request (ex_request svc_Stop)],
       wg_done = True\<rparr> = None \<and>
   Return False 0 \<in> set (Execute ex_sw [''svc'']
     \<lparr>schedule_result = None,
       selected = [Request (ex_request svc_Interrogate), Request (ex_request svc_Stop)],
       wg_done = True\<rparr>) \<and>
   sends (Execute ex_sw [''svc'']
     \<lparr>schedule_result = None,
       selected = [Request (ex_request svc_Interrogate), Request (ex_request svc_Stop)],
       wg_done = True\<rparr>) =
     [Status_zero\<lparr>State := svc_StartPending\<rparr>,
      Status_zero\<lparr>State := svc_Running, Accepts := cmdsAccepted\<rparr>,
      Status_zero\<lparr>State := svc_Running, Accepts := cmdsAccepted\<rparr>,
      Status_zero\<lparr>State := svc_Running, Accepts := cmdsAccepted\<rparr>,
      Status_zero\<lparr>State := svc_StopPending\<rparr>] \<and>
   last (sends (Execute ex_sw [''svc'']
     \<lparr>schedule_result = None,
       selected = [Request (ex_request svc_Interrogate), Request (ex_request svc_Stop)],
       wg_done = True\<rparr>)) = Status_zero\<lparr>State := svc_StopPending\<rparr>"
proof -
  let ?e = "\<lparr>schedule_result = None,
       selected = [Request (ex_request svc_Interrogate), Request (ex_request svc_Stop)],
       wg_done = True\<rparr>"
  have h: "schedule_result ?e = None" by simp
  have r: "Return False 0 \<in> set (Execute ex_sw [''svc''] ?e)"
    by (simp add: ex_simps)
  have s: "sends (Execute ex_sw [''svc''] ?e) =
     [Status_zero\<lparr>State := svc_StartPending\<rparr>,
      Status_zero\<lparr>State := svc_Running, Accepts := cmdsAccepted\<rparr>,
      Status_zero\<lparr>State := svc_Running, Accepts := cmdsAccepted\<rparr>,
      Status_zero\<lparr>State := svc_Running, Accepts := cmdsAccepted\<rparr>,
      Status_zero\<lparr>State := svc_StopPending\<rparr>]"
    by (simp add: ex_simps)
  from Execute_status_sequence [OF h, where sw = ex_sw and args = "[''svc'']"
      and ssec = False and errno = 0] r
  have "last (sends (Execute ex_sw [''svc''] ?e)) = Status_zero\<lparr>State := svc_StopPending\<rparr>"
    by blast
  with h r s show ?thesis by blast
qed


text \<open>
  Claim C4, as stated, fails: the accept mask of the running status holds the stop and
  shutdown bits only (the pause-and-continue bit is commented out in the source), and a
  Pause request reaches the default branch, where it is logged as unexpected.
\<close>

theorem Execute_pause_counterexample:
  "Execute ex_sw []
     \<lparr>schedule_result = None, selected = [Request (ex_request svc_Pause)], wg_done = True\<rparr> =
   [Send (Status_zero\<lparr>State := svc_StartPending\<rparr>), CallSchedule,
    Send (Status_zero\<lparr>State := svc_Running, Accepts := 5\<rparr>),
    Received (ex_request svc_Pause),
    ElogErrorf 1 ''unexpected control request #%d'' (ex_request svc_Pause),
    BlockedInSelect] \<and>
   (5 :: uint32) AND svc_AcceptPauseAndContinue = 0"
  by (simp add: ex_simps)

text \<open>
  Claim C4, amended. The running status reported by Execute advertises stop and shutdown
  only: its accept mask is \<open>AcceptStop OR AcceptShutdown\<close>, in which the
  pause-and-continue bit is clear. A Pause or Continue request that is received all the
  same is treated as an unexpected control request: it is logged, no status is sent, the
  task is not cancelled, and the loop goes on.
\<close>

theorem Execute_pause_continue_unexpected:
  assumes "Execute sw args e = pre @ Received c # post"
    and "Cmd c = svc_Pause \<or> Cmd c = svc_Continue"
  shows "(\<exists>pre'. pre = Send (Status_zero\<lparr>State := svc_StartPending\<rparr>) # CallSchedule #
            Send (Status_zero\<lparr>State := svc_Running,
                               Accepts := svc_AcceptStop OR svc_AcceptShutdown\<rparr>) # pre') \<and>
         (svc_AcceptStop OR svc_AcceptShutdown) AND svc_AcceptPauseAndContinue = 0 \<and>
         (\<exists>es0 es'. selected e = es0 @ Request c # es' \<and>
            post = ElogErrorf 1 ''unexpected control request #%d'' c #
                   loop args (wg_done e) es')"
proof -
  have n: "Cmd c \<noteq> svc_Interrogate" "\<not> (Cmd c = svc_Stop \<or> Cmd c = svc_Shutdown)"
    using assms(2) by (auto simp: svc_consts)
  from Execute_Received_in_loop [OF assms(1)]
  have a: "\<exists>pre'. pre = Send (Status_zero\<lparr>State := svc_StartPending\<rparr>) # CallSchedule #
            Send (Status_zero\<lparr>State := svc_Running,
                               Accepts := svc_AcceptStop OR svc_AcceptShutdown\<rparr>) # pre'"
    by (auto simp: cmdsAccepted_def)
  have b: "(svc_AcceptStop OR svc_AcceptShutdown) AND svc_AcceptPauseAndContinue = 0"
    by (simp add: svc_consts)
  from Execute_after_Received [OF assms(1)] n
  have c: "\<exists>es0 es'. selected e = es0 @ Request c # es' \<and>
            post = ElogErrorf 1 ''unexpected control request #%d'' c #
                   loop args (wg_done e) es'"
    by simp
  from a b c show ?thesis by (intro conjI)
qed

theorem Execute_pause_continue_unexpected_witness:
  "Execute ex_sw []
     \<lparr>schedule_result = None, selected = [Request (ex_request svc_Continue)], wg_done = False\<rparr> =
     [Send (Status_zero\<lparr>State := svc_StartPending\<rparr>), CallSchedule,
      Send (Status_zero\<lparr>State := svc_Running, Accepts := cmdsAccepted\<rparr>)] @
     Received (ex_request svc_Continue) #
     [ElogErrorf 1 ''unexpected control request #%d'' (ex_request svc_Continue),
      BlockedInSelect] \<and>
   (Cmd (ex_request svc_Continue) = svc_Pause \<or> Cmd (ex_request svc_Continue) = svc_Continue) \<and>
   (\<exists>es0 es'. [Request (ex_request svc_Continue)] = es0 @ Request (ex_request svc_Continue) # es' \<and>
          [ElogErrorf 1 ''unexpected control request #%d'' (ex_request svc_Continue),
           BlockedInSelect] =
          ElogErrorf 1 ''unexpected control request #%d'' (ex_request svc_Continue) #
          loop [] False es')"
proof -
  let ?e = "\<lparr>schedule_result = None, selected = [Request (ex_request svc_Continue)],
             wg_done = False\<rparr>"
  have h1: "Execute ex_sw [] ?e =
     [Send (Status_zero\<lparr>State := svc_StartPending\<rparr>), CallSchedule,
      Send (Status_zero\<lparr>State := svc_Running, Accepts := cmdsAccepted\<rparr>)] @
     Received (ex_request svc_Continue) #
     [ElogErrorf 1 ''unexpected control request #%d'' (ex_request svc_Continue),
      BlockedInSelect]"
    by (simp add: ex_simps)
  have h2: "Cmd (ex_request svc_Continue) = svc_Pause \<or>
            Cmd (ex_request svc_Continue) = svc_Continue"
    by (simp add: ex_request_def)
  from Execute_pause_continue_unexpected [OF h1 h2, THEN conjunct2, THEN conjunct2]
  have "\<exists>es0 es'. [Request (ex_request svc_Continue)] = es0 @ Request (ex_request svc_Continue) # es' \<and>
          [ElogErrorf 1 ''unexpected control request #%d'' (ex_request svc_Continue),
           BlockedInSelect] =
          ElogErrorf 1 ''unexpected control request #%d'' (ex_request svc_Continue) #
          loop [] False es'"
    by simp
  with h1 h2 show ?thesis by (intro conjI)
qed

text \<open>
  Claim C6. Wherever an Interrogate request is received in the command loop, Execute
  sends the request's current status back on the changes channel (twice, 100 ms apart),
  does not cancel the task, and goes on with the loop on the selections that are left.
\<close>

theorem Execute_interrogate_forwards:
  assumes "Execute sw args e = pre @ Received c # post"
    and "Cmd c = svc_Interrogate"
  shows "\<exists>es0 es'. selected e = es0 @ Request c # es' \<and>
           post = Send (CurrentStatus c) # Sleep (100 * time_Millisecond) #
                  Send (CurrentStatus c) # loop args (wg_done e) es'"
  using Execute_after_Received [OF assms(1)] assms(2) by simp

theorem Execute_interrogate_forwards_witness:
  "Execute ex_sw []
     \<lparr>schedule_result = None, selected = [Request (ex_request svc_Interrogate)],
      wg_done = True\<rparr> =
     [Send (Status_zero\<lparr>State := svc_StartPending\<rparr>), CallSchedule,
      Send (Status_zero\<lparr>State := svc_Running, Accepts := cmdsAccepted\<rparr>)] @
     Received (ex_request svc_Interrogate) #
     [Send (CurrentStatus (ex_request svc_Interrogate)), Sleep (100 * time_Millisecond),
      Send (CurrentStatus (ex_request svc_Interrogate)), BlockedInSelect] \<and>
   Cmd (ex_request svc_Interrogate) = svc_Interrogate \<and>
   (\<exists>es0 es'. [Request (ex_request svc_Interrogate)] =
            es0 @ Request (ex_request svc_Interrogate) # es' \<and>
          [Send (CurrentStatus (ex_request svc_Interrogate)), Sleep (100 * time_Millisecond),
           Send (CurrentStatus (ex_request svc_Interrogate)), BlockedInSelect] =
          Send (CurrentStatus (ex_request svc_Interrogate)) # Sleep (100 * time_Millisecond) #
          Send (CurrentStatus (ex_request svc_Interrogate)) # loop [] True es')"
proof -
  let ?e = "\<lparr>schedule_result = None, selected = [Request (ex_request svc_Interrogate)],
             wg_done = True\<rparr>"
  have h1: "Execute ex_sw [] ?e =
     [Send (Status_zero\<lparr>State := svc_StartPending\<rparr>), CallSchedule,
      Send (Status_zero\<lparr>State := svc_Running, Accepts := cmdsAccepted\<rparr>)] @
     Received (ex_request svc_Interrogate) #
     [Send (CurrentStatus (ex_request svc_Interrogate)), Sleep (100 * time_Millisecond),
      Send (CurrentStatus (ex_request svc_Interrogate)), BlockedInSelect]"
    by (simp add: Execute_def ex_request_def)
  have h2: "Cmd (ex_request svc_Interrogate) = svc_Interrogate"
    by (simp add: ex_request_def)
  from Execute_interrogate_forwards [OF h1 h2]
  have "\<exists>es0 es'. [Request (ex_request svc_Interrogate)] =
            es0 @ Request (ex_request svc_Interrogate) # es' \<and>
          [Send (CurrentStatus (ex_request svc_Interrogate)), Sleep (100 * time_Millisecond),
           Send (CurrentStatus (ex_request svc_Interrogate)), BlockedInSelect] =
          Send (CurrentStatus (ex_request svc_Interrogate)) # Sleep (100 * time_Millisecond) #
          Send (CurrentStatus (ex_request svc_Interrogate)) # loop [] True es'"
    by simp
  with h1 h2 show ?thesis by (intro conjI)
qed

text \<open>
  Claim C9. If Schedule returns an error, Execute has sent the start-pending status,
  logs the error, cancels the context, waits for the wait group and, when the wait
  returns, returns with errno 1. Start-pending is the only status it ever sends.
\<close>

theorem Execute_schedule_error:
  assumes "schedule_result e = Some err"
  shows "Execute sw args e =
           [Send (Status_zero\<lparr>State := svc_StartPending\<rparr>), CallSchedule,
            ElogError 1 (''When scheduling the service '' @ [CHR 0x27] @ serviceName sw @
                         [CHR 0x27] @ '': '' @ err),
            Cancel, WgWait] @
           (if wg_done e then [Return False 1] else [BlockedInWait]) \<and>
         sends (Execute sw args e) = [Status_zero\<lparr>State := svc_StartPending\<rparr>]"
  using assms by (simp add: Execute_def wg_Wait_def)

theorem Execute_schedule_error_witness:
  "schedule_result \<lparr>schedule_result = Some ''no task'',
       selected = [Request (ex_request svc_Stop)], wg_done = True\<rparr> = Some ''no task'' \<and>
   Execute ex_sw [] \<lparr>schedule_result = Some ''no task'',
       selected = [Request (ex_request svc_Stop)], wg_done = True\<rparr> =
     [Send (Status_zero\<lparr>State := svc_StartPending\<rparr>), CallSchedule,
      ElogError 1 ''When scheduling the service 'demo': no task'', Cancel, WgWait,
      Return False 1]"
proof -
  let ?e = "\<lparr>schedule_result = Some ''no task'',
       selected = [Request (ex_request svc_Stop)], wg_done = True\<rparr>"
  have h: "schedule_result ?e = Some ''no task''" by simp
  from Execute_schedule_error [OF h, where sw = ex_sw and args = "[]"] h
  show ?thesis by (simp add: ex_sw_def)
qed

text \<open>
  Claim C10. Wherever a request is received whose command is none of Interrogate, Stop
  and Shutdown, Execute logs it as an unexpected control request and does nothing else:
  it sends no status, does not cancel the task, and goes on with the loop.
\<close>

theorem Execute_unexpected_control:
  assumes "Execute sw args e = pre @ Received c # post"
    and "Cmd c \<noteq> svc_Interrogate" and "Cmd c \<noteq> svc_Stop" and "Cmd c \<noteq> svc_Shutdown"
  shows "\<exists>es0 es'. selected e = es0 @ Request c # es' \<and>
           post = ElogErrorf 1 ''unexpected control request #%d'' c #
                  loop args (wg_done e) es'"
  using Execute_after_Received [OF assms(1)] assms(2-4) by simp

theorem Execute_unexpected_control_witness:
  "Execute ex_sw []
     \<lparr>schedule_result = None, selected = [Request (ex_request 6), CtxDone], wg_done = True\<rparr> =
     [Send (Status_zero\<lparr>State := svc_StartPending\<rparr>), CallSchedule,
      Send (Status_zero\<lparr>State := svc_Running, Accepts := cmdsAccepted\<rparr>)] @
     Received (ex_request 6) #
     [ElogErrorf 1 ''unexpected control request #%d'' (ex_request 6), CtxDoneSeen,
      ElogInfo 1 ''The wrapped service cancelled the execution'', WgWait,
      Send (Status_zero\<lparr>State := svc_StopPending\<rparr>), Return False 0] \<and>
   Cmd (ex_request 6) \<noteq> svc_Interrogate \<and> Cmd (ex_request 6) \<noteq> svc_Stop \<and>
   Cmd (ex_request 6) \<noteq> svc_Shutdown \<and>
   (\<exists>es0 es'. [Request (ex_request 6), CtxDone] = es0 @ Request (ex_request 6) # es' \<and>
      [ElogErrorf 1 ''unexpected control request #%d'' (ex_request 6), CtxDoneSeen,
      ElogInfo 1 ''The wrapped service cancelled the execution'', WgWait,
      Send (Status_zero\<lparr>State := svc_StopPending\<rparr>), Return False 0] =
      ElogErrorf 1 ''unexpected control request #%d'' (ex_request 6) # loop [] True es')"
proof -
  let ?e = "\<lparr>schedule_result = None, selected = [Request (ex_request 6), CtxDone],
             wg_done = True\<rparr>"
  have h1: "Execute ex_sw [] ?e =
     [Send (Status_zero\<lparr>State := svc_StartPending\<rparr>), CallSchedule,
      Send (Status_zero\<lparr>State := svc_Running, Accepts := cmdsAccepted\<rparr>)] @
     Received (ex_request 6) #
     [ElogErrorf 1 ''unexpected control request #%d'' (ex_request 6), CtxDoneSeen,
      ElogInfo 1 ''The wrapped service cancelled the execution'', WgWait,
      Send (Status_zero\<lparr>State := svc_StopPending\<rparr>), Return False 0]"
    by (simp add: Execute_def ex_request_def wg_Wait_def after_loop_def svc_consts)
  have h2: "Cmd (ex_request 6) \<noteq> svc_Interrogate" "Cmd (ex_request 6) \<noteq> svc_Stop"
    "Cmd (ex_request 6) \<noteq> svc_Shutdown"
    by (simp_all add: ex_request_def svc_consts)
  from Execute_unexpected_control [OF h1 h2]
  have "\<exists>es0 es'. [Request (ex_request 6), CtxDone] = es0 @ Request (ex_request 6) # es' \<and>
      [ElogErrorf 1 ''unexpected control request #%d'' (ex_request 6), CtxDoneSeen,
      ElogInfo 1 ''The wrapped service cancelled the execution'', WgWait,
      Send (Status_zero\<lparr>State := svc_StopPending\<rparr>), Return False 0] =
      ElogErrorf 1 ''unexpected control request #%d'' (ex_request 6) # loop [] True es'"
    by simp
  with h1 h2 show ?thesis by (intro conjI)
qed


section \<open>Properties of the management commands\<close>

lemmas os_defs =
  plain_call_def logged_def mgr_Connect_def m_Disconnect_def m_OpenService_def s_Close_def
  m_CreateService_def s_Delete_def s_Start_def s_Control_def s_Query_def
  eventlog_InstallAsEventCreate_def eventlog_Remove_def time_Now_def time_Sleep_def Let_def

lemmas ex_world_simps =
  ex_world_def ex_sw_def ExePath_def stat_file_def filepath_Ext_def
  mgr_StartAutomatic_def eventlog_Error_def eventlog_Warning_def eventlog_Info_def

text \<open>
  Claim C8, as stated, fails where it says that a failed install does not leave the
  service registered: the result of the delete is dropped, so when the event-log
  registration fails and the delete fails too, InstallService returns its error and the
  service it created is still there.
\<close>

theorem InstallService_cleanup_counterexample:
  "fst (InstallService ex_sw (ex_world\<lparr>fault :=
       failing [InstallAsEventCreate ''demo'' 7, DeleteService ''demo'']
         ''Access is denied.''\<rparr>)) =
     Returns (Some ''SetupEventLogSource() failed: Access is denied.'') \<and>
   ''demo'' \<notin> services ex_world \<and>
   ''demo'' \<in> services (snd (InstallService ex_sw (ex_world\<lparr>fault :=
       failing [InstallAsEventCreate ''demo'' 7, DeleteService ''demo'']
         ''Access is denied.''\<rparr>)))"
  by (simp add: InstallService_def os_defs ex_world_simps)

text \<open>
  Claim C8, amended. If the service is created but registering the event-log source
  fails, InstallService calls Delete on the new service, dropping its result, before it
  returns the error of the registration; if that delete succeeds, the services
  registered are the ones there were before. And when a service of the same name
  already exists, InstallService returns an error, creates nothing and leaves the
  registered services as they were.
\<close>

theorem InstallService_cleanup:
  assumes "InstallService sw w = (r, w')"
  shows "(ExePath w = Returns (Inr exepath) \<and>
          fault w MgrConnect (clock w) = None \<and>
          serviceName sw \<notin> services w \<and>
          fault w (CreateService (serviceName sw) exepath
                     \<lparr>DisplayName = serviceDisplayName sw,
                      Description = serviceDescription sw,
                      StartType = mgr_StartAutomatic\<rparr>
                     [''is'', ''auto-started'']) (clock w) = None \<and>
          fault w (InstallAsEventCreate (serviceName sw)
                     (eventlog_Error OR eventlog_Warning OR eventlog_Info)) (clock w) = Some e
          \<longrightarrow>
            r = Returns (Some (''SetupEventLogSource() failed: '' @ e)) \<and>
            (\<exists>x y z. calls w' = calls w @
               [(MgrConnect, None),
                (OpenService (serviceName sw), Some x),
                (CreateService (serviceName sw) exepath
                     \<lparr>DisplayName = serviceDisplayName sw,
                      Description = serviceDescription sw,
                      StartType = mgr_StartAutomatic\<rparr>
                     [''is'', ''auto-started''], None),
                (InstallAsEventCreate (serviceName sw)
                     (eventlog_Error OR eventlog_Warning OR eventlog_Info), Some e),
                (DeleteService (serviceName sw),
                   fault w (DeleteService (serviceName sw)) (clock w)),
                (CloseService (serviceName sw), y),
                (MgrDisconnect, z)]) \<and>
            (fault w (DeleteService (serviceName sw)) (clock w) = None \<longrightarrow>
               services w' = services w)) \<and>
         (serviceName sw \<in> services w \<and> os_Args w \<noteq> [] \<longrightarrow>
            (\<exists>err. r = Returns (Some err)) \<and>
            services w' = services w \<and>
            (\<forall>p c a. (CreateService (serviceName sw) p c a, None) \<notin>
               set (drop (length (calls w)) (calls w'))))"
proof (intro conjI impI)
  assume h: "ExePath w = Returns (Inr exepath) \<and>
          fault w MgrConnect (clock w) = None \<and>
          serviceName sw \<notin> services w \<and>
          fault w (CreateService (serviceName sw) exepath
                     \<lparr>DisplayName = serviceDisplayName sw,
                      Description = serviceDescription sw,
                      StartType = mgr_StartAutomatic\<rparr>
                     [''is'', ''auto-started'']) (clock w) = None \<and>
          fault w (InstallAsEventCreate (serviceName sw)
                     (eventlog_Error OR eventlog_Warning OR eventlog_Info)) (clock w) = Some e"
  with assms show "r = Returns (Some (''SetupEventLogSource() failed: '' @ e))"
    by (auto simp: InstallService_def os_defs split: option.splits)
  from h assms show "\<exists>x y z. calls w' = calls w @
               [(MgrConnect, None),
                (OpenService (serviceName sw), Some x),
                (CreateService (serviceName sw) exepath
                     \<lparr>DisplayName = serviceDisplayName sw,
                      Description = serviceDescription sw,
                      StartType = mgr_StartAutomatic\<rparr>
                     [''is'', ''auto-started''], None),
                (InstallAsEventCreate (serviceName sw)
                     (eventlog_Error OR eventlog_Warning OR eventlog_Info), Some e),
                (DeleteService (serviceName sw),
                   fault w (DeleteService (serviceName sw)) (clock w)),
                (CloseService (serviceName sw), y),
                (MgrDisconnect, z)]"
    by (auto simp: InstallService_def os_defs split: option.splits)
  from h assms show "services w' = services w"
    if "fault w (DeleteService (serviceName sw)) (clock w) = None"
    using that by (auto simp: InstallService_def os_defs split: option.splits)
next
  assume h: "serviceName sw \<in> services w \<and> os_Args w \<noteq> []"
  then have nopanic: "ExePath w \<noteq> Panics" "\<And>n. ExePath w \<noteq> Exits n"
    by (auto simp: ExePath_def split: list.splits sum.splits)
  with h assms show "\<exists>err. r = Returns (Some err)"
    by (auto simp: InstallService_def os_defs split: option.splits outcome.splits sum.splits)
  from h assms show "services w' = services w"
    by (auto simp: InstallService_def os_defs split: option.splits outcome.splits sum.splits)
  from h assms show "\<forall>p c a. (CreateService (serviceName sw) p c a, None) \<notin>
               set (drop (length (calls w)) (calls w'))"
    by (auto simp: InstallService_def os_defs split: option.splits outcome.splits sum.splits)
qed

theorem InstallService_cleanup_witness:
  "ExePath (ex_world\<lparr>fault :=
       failing [InstallAsEventCreate ''demo'' 7] ''Access is denied.''\<rparr>) =
     Returns (Inr ''C:/svc/demo.exe'') \<and>
   serviceName ex_sw \<notin> services (ex_world\<lparr>fault :=
       failing [InstallAsEventCreate ''demo'' 7] ''Access is denied.''\<rparr>) \<and>
   fst (InstallService ex_sw (ex_world\<lparr>fault :=
       failing [InstallAsEventCreate ''demo'' 7] ''Access is denied.''\<rparr>)) =
     Returns (Some ''SetupEventLogSource() failed: Access is denied.'') \<and>
   services (snd (InstallService ex_sw (ex_world\<lparr>fault :=
       failing [InstallAsEventCreate ''demo'' 7] ''Access is denied.''\<rparr>))) =
     {} \<and>
   serviceName ex_sw \<in> services (ex_world\<lparr>services := {''demo''}\<rparr>) \<and>
   os_Args (ex_world\<lparr>services := {''demo''}\<rparr>) \<noteq> [] \<and>
   (\<exists>err. fst (InstallService ex_sw (ex_world\<lparr>services := {''demo''}\<rparr>)) =
      Returns (Some err)) \<and>
   services (snd (InstallService ex_sw (ex_world\<lparr>services := {''demo''}\<rparr>))) = {''demo''}"
proof -
  let ?w = "ex_world\<lparr>fault :=
       failing [InstallAsEventCreate ''demo'' 7] ''Access is denied.''\<rparr>"
  let ?v = "ex_world\<lparr>services := {''demo''}\<rparr>"
  have w: "InstallService ex_sw ?w =
      (fst (InstallService ex_sw ?w), snd (InstallService ex_sw ?w))"
    by simp
  have v: "InstallService ex_sw ?v =
      (fst (InstallService ex_sw ?v), snd (InstallService ex_sw ?v))"
    by simp
  have h1: "ExePath ?w = Returns (Inr ''C:/svc/demo.exe'')"
    by (simp add: ex_world_simps)
  have h2: "fault ?w MgrConnect (clock ?w) = None"
    by (simp add: ex_world_def)
  have h3: "serviceName ex_sw \<notin> services ?w"
    by (simp add: ex_world_def)
  have h4: "fault ?w (CreateService (serviceName ex_sw) ''C:/svc/demo.exe''
                     \<lparr>DisplayName = serviceDisplayName ex_sw,
                      Description = serviceDescription ex_sw,
                      StartType = mgr_StartAutomatic\<rparr>
                     [''is'', ''auto-started'']) (clock ?w) = None"
    by (simp add: ex_world_def)
  have h5: "fault ?w (InstallAsEventCreate (serviceName ex_sw)
                     (eventlog_Error OR eventlog_Warning OR eventlog_Info)) (clock ?w) =
              Some ''Access is denied.''"
    by (simp add: ex_world_simps)
  have h6: "fault ?w (DeleteService (serviceName ex_sw)) (clock ?w) = None"
    by (simp add: ex_world_def)
  have h7: "serviceName ex_sw \<in> services ?v" "os_Args ?v \<noteq> []"
    by (simp_all add: ex_world_def ex_sw_def)
  note t = InstallService_cleanup [OF w, where exepath = "''C:/svc/demo.exe''"
      and e = "''Access is denied.''"]
  from h1 h2 h3 h4 h5 have p: "ExePath ?w = Returns (Inr ''C:/svc/demo.exe'') \<and>
          fault ?w MgrConnect (clock ?w) = None \<and>
          serviceName ex_sw \<notin> services ?w \<and>
          fault ?w (CreateService (serviceName ex_sw) ''C:/svc/demo.exe''
                     \<lparr>DisplayName = serviceDisplayName ex_sw,
                      Description = serviceDescription ex_sw,
                      StartType = mgr_StartAutomatic\<rparr>
                     [''is'', ''auto-started'']) (clock ?w) = None \<and>
          fault ?w (InstallAsEventCreate (serviceName ex_sw)
                     (eventlog_Error OR eventlog_Warning OR eventlog_Info)) (clock ?w) =
              Some ''Access is denied.''"
    by (intro conjI)
  note c = t [THEN conjunct1, THEN mp, OF p]
  from c [THEN conjunct1] have c1: "fst (InstallService ex_sw ?w) =
        Returns (Some ''SetupEventLogSource() failed: Access is denied.'')"
    by simp
  from c [THEN conjunct2, THEN conjunct2, THEN mp, OF h6]
  have c2: "services (snd (InstallService ex_sw ?w)) = services ?w" .
  from h7 have q: "serviceName ex_sw \<in> services ?v \<and> os_Args ?v \<noteq> []"
    by (intro conjI)
  note d = InstallService_cleanup [OF v, THEN conjunct2, THEN mp, OF q]
  from d have c3: "\<exists>err. fst (InstallService ex_sw ?v) = Returns (Some err)"
    by (rule conjunct1)
  from d have c4: "services (snd (InstallService ex_sw ?v)) = services ?v"
    by (rule conjunct2 [THEN conjunct1])
  from c2 have c2': "services (snd (InstallService ex_sw ?w)) = {}"
    by (simp add: ex_world_def)
  from c4 have c4': "services (snd (InstallService ex_sw ?v)) = {''demo''}"
    by (simp add: ex_world_def)
  from h1 h3 h7 c1 c2' c3 c4' show ?thesis by (intro conjI)
qed



lemma poll_step:
  "s_Query name (time_Sleep d w) =
     ((case fault w (QueryCall name) (clock w + d + oversleep w (clock w)) of
         Some e \<Rightarrow> Inl e
       | None \<Rightarrow> Inr (status_at w (clock w + d + oversleep w (clock w)))),
      w\<lparr>clock := clock w + d + oversleep w (clock w),
        calls := calls w @ [(SleepCall d, None),
          (QueryCall name, fault w (QueryCall name) (clock w + d + oversleep w (clock w)))]\<rparr>)"
  by (simp add: os_defs split: option.splits)

lemma await_frame:
  "await name to tmo st w = (r, w') \<Longrightarrow>
   status_at w' = status_at w \<and> fault w' = fault w \<and> oversleep w' = oversleep w \<and>
   services w' = services w \<and> sources w' = sources w \<and> clock w \<le> clock w'"
proof (induction name to tmo st w arbitrary: r w' rule: await.induct)
  case (1 name to tmo st w)
  show ?case
  proof (cases "State st \<noteq> to \<and> \<not> tmo < time_Now w")
    case False
    with "1.prems" show ?thesis
      by (auto simp: await.simps [of name to tmo st w] split: if_splits)
  next
    case True
    let ?t = "clock w + 300 * time_Millisecond + oversleep w (clock w)"
    let ?w1 = "w\<lparr>clock := ?t, calls := calls w @ [(SleepCall (300 * time_Millisecond), None),
          (QueryCall name, fault w (QueryCall name) ?t)]\<rparr>"
    show ?thesis
    proof (cases "fault w (QueryCall name) ?t")
      case (Some e)
      with True "1.prems" show ?thesis
        by (auto simp: await.simps [of name to tmo st w] poll_step)
    next
      case None
      with True have q: "s_Query name (time_Sleep (300 * time_Millisecond) w) =
          (Inr (status_at w ?t), ?w1)"
        by (simp add: poll_step)
      with True "1.prems" have a: "await name to tmo (status_at w ?t) ?w1 = (r, w')"
        by (simp add: await.simps [of name to tmo st w])
      from True have c: "State st \<noteq> to" "\<not> tmo < time_Now w" by simp_all
      from "1.IH" [OF c q [symmetric] refl a] show ?thesis by simp
    qed
  qed
qed

lemma await_log:
  assumes "await name to tmo st w = (r, w')"
  shows "\<exists>xs. calls w' = calls w @
              concat (map (\<lambda>x. [(SleepCall (300 * time_Millisecond), None), (QueryCall name, x)]) xs) \<and>
           (\<forall>x \<in> set (butlast xs). x = None) \<and>
           (\<forall>e. Some e \<in> set xs \<longrightarrow> r = Some (''could not retrieve service status: '' @ e)) \<and>
           (xs = [] \<longrightarrow> clock w' = clock w) \<and>
           (xs \<noteq> [] \<longrightarrow> clock w + (length xs - 1) * (300 * time_Millisecond) \<le> tmo \<and>
              clock w + length xs * (300 * time_Millisecond) \<le> clock w')"
  using assms
proof (induction name to tmo st w arbitrary: r w' rule: await.induct)
  case (1 name to tmo st w)
  let ?D = "300 * time_Millisecond"
  let ?f = "\<lambda>x. [(SleepCall ?D, None), (QueryCall name, x)]"
  show ?case
  proof (cases "State st \<noteq> to \<and> \<not> tmo < time_Now w")
    case False
    with "1.prems" have "w' = w"
      by (auto simp: await.simps [of name to tmo st w] split: if_splits)
    then show ?thesis
      by (intro exI [of _ "[]"]) simp
  next
    case True
    let ?t = "clock w + ?D + oversleep w (clock w)"
    let ?w1 = "w\<lparr>clock := ?t, calls := calls w @ [(SleepCall ?D, None),
          (QueryCall name, fault w (QueryCall name) ?t)]\<rparr>"
    from True have le: "clock w \<le> tmo" by (simp add: time_Now_def)
    show ?thesis
    proof (cases "fault w (QueryCall name) ?t")
      case (Some e)
      with True "1.prems" have "r = Some (''could not retrieve service status: '' @ e)"
        and "w' = ?w1"
        by (auto simp: await.simps [of name to tmo st w] poll_step)
      with Some le show ?thesis
        by (intro exI [of _ "[Some e]"]) simp
    next
      case None
      with True have q: "s_Query name (time_Sleep ?D w) = (Inr (status_at w ?t), ?w1)"
        by (simp add: poll_step)
      with True "1.prems" have a: "await name to tmo (status_at w ?t) ?w1 = (r, w')"
        by (simp add: await.simps [of name to tmo st w])
      from True have c: "State st \<noteq> to" "\<not> tmo < time_Now w" by simp_all
      from "1.IH" [OF c q [symmetric] refl a] obtain xs where
        x1: "calls w' = calls ?w1 @ concat (map ?f xs)"
        and x2: "\<forall>x \<in> set (butlast xs). x = None"
        and x3: "\<forall>e. Some e \<in> set xs \<longrightarrow> r = Some (''could not retrieve service status: '' @ e)"
        and x4: "xs = [] \<longrightarrow> clock w' = clock ?w1"
        and x5: "xs \<noteq> [] \<longrightarrow> clock ?w1 + (length xs - 1) * ?D \<le> tmo \<and>
              clock ?w1 + length xs * ?D \<le> clock w'"
        by blast
      have y1: "calls w' = calls w @ concat (map ?f (None # xs))"
        using x1 None by simp
      have y2: "\<forall>x \<in> set (butlast (None # xs)). x = None"
        using x2 by simp
      have y3: "\<forall>e. Some e \<in> set (None # xs) \<longrightarrow>
          r = Some (''could not retrieve service status: '' @ e)"
        using x3 by simp
      have y5: "clock w + (length (None # xs) - 1) * ?D \<le> tmo \<and>
              clock w + length (None # xs) * ?D \<le> clock w'"
      proof (cases "xs = []")
        case True
        with x4 le show ?thesis by simp
      next
        case False
        then obtain n where n: "length xs = Suc n" by (cases xs) auto
        from False x5 have "clock ?w1 + (length xs - 1) * ?D \<le> tmo"
          and "clock ?w1 + length xs * ?D \<le> clock w'" by blast+
        with n show ?thesis by simp
      qed
      from y1 y2 y3 y5 show ?thesis
        by (intro exI [of _ "None # xs"]) simp
    qed
  qed
qed

lemma StartService_failures:
  assumes "calls w = []" and "StartService sw w = (r, w')"
  shows "not_retried (calls w')"
    and "r = None \<longrightarrow> (\<forall>(c, x) \<in> set (calls w'). x \<noteq> None \<longrightarrow> cleanup c)"
    and "\<forall>c e. (c, Some e) \<in> set (calls w') \<and> \<not> cleanup c \<longrightarrow>
           r = Some (error_context c @ e)"
  using assms
  by (auto simp: StartService_def os_defs split: option.splits)

lemma RemoveService_failures:
  assumes "calls w = []" and "RemoveService sw w = (r, w')"
  shows "not_retried (calls w')"
    and "r = None \<longrightarrow> (\<forall>(c, x) \<in> set (calls w'). x \<noteq> None \<longrightarrow> cleanup c)"
    and "\<forall>c e. (c, Some e) \<in> set (calls w') \<and> \<not> cleanup c \<longrightarrow>
           r = (if c = OpenService (serviceName sw)
                then Some (''service '' @ serviceName sw @ '' is not installed'')
                else Some (error_context c @ e))"
  using assms
  by (auto simp: RemoveService_def os_defs split: option.splits if_splits)

lemma InstallService_failures:
  assumes "calls w = []" and "InstallService sw w = (r, w')"
  shows "not_retried (calls w')"
    and "r = Returns None \<longrightarrow>
           (\<exists>e. (OpenService (serviceName sw), Some e) \<in> set (calls w')) \<and>
           (\<forall>(c, x) \<in> set (calls w'). x \<noteq> None \<longrightarrow>
              cleanup c \<or> c = OpenService (serviceName sw))"
    and "\<forall>c e. (c, Some e) \<in> set (calls w') \<and> \<not> cleanup c \<and>
           c \<noteq> OpenService (serviceName sw) \<and> c \<noteq> DeleteService (serviceName sw) \<longrightarrow>
           r = Returns (Some (error_context c @ e))"
  using assms
  by (auto simp: InstallService_def os_defs split: option.splits if_splits outcome.splits sum.splits)

lemma not_retried_append_ok:
  "\<forall>x \<in> set xs. snd x = None \<Longrightarrow> not_retried (xs @ ys) = not_retried ys"
  by (induction xs) auto

lemma ControlService_polling_path:
  assumes "ControlService sw c to w = (r, w')"
    and "fault w MgrConnect (clock w) = None"
    and "fault w (OpenService (serviceName sw)) (clock w) = None"
    and "serviceName sw \<in> services w"
    and "fault w (ControlCall (serviceName sw) c) (clock w) = None"
    and "w4 = snd (await (serviceName sw) to (clock w + 10 * time_Second) (status_at w (clock w))
            (w\<lparr>calls := calls w @ [(MgrConnect, None), (OpenService (serviceName sw), None),
               (ControlCall (serviceName sw) c, None)]\<rparr>))"
  shows "await (serviceName sw) to (clock w + 10 * time_Second) (status_at w (clock w))
            (w\<lparr>calls := calls w @ [(MgrConnect, None), (OpenService (serviceName sw), None),
               (ControlCall (serviceName sw) c, None)]\<rparr>) = (r, w4)"
    and "w' = w4\<lparr>calls := calls w4 @
            [(CloseService (serviceName sw), fault w4 (CloseService (serviceName sw)) (clock w4)),
             (MgrDisconnect, fault w4 MgrDisconnect (clock w4))]\<rparr>"
  using assms
  by (auto simp: ControlService_def os_defs split: prod.splits)

lemma ControlService_other_paths:
  assumes "ControlService sw c to w = (r, w')"
    and "\<not> (fault w MgrConnect (clock w) = None \<and>
            fault w (OpenService (serviceName sw)) (clock w) = None \<and>
            serviceName sw \<in> services w \<and>
            fault w (ControlCall (serviceName sw) c) (clock w) = None)"
  shows "(\<exists>e. r = Some e \<and> calls w' = calls w @ [(MgrConnect, Some e)]) \<or>
         (\<exists>e z. r = Some (''could not access service: '' @ e) \<and>
            calls w' = calls w @ [(MgrConnect, None), (OpenService (serviceName sw), Some e),
              (MgrDisconnect, z)]) \<or>
         (\<exists>e y z. r = Some (''could not send control='' @ decimal (unat c) @ '': '' @ e) \<and>
            calls w' = calls w @ [(MgrConnect, None), (OpenService (serviceName sw), None),
              (ControlCall (serviceName sw) c, Some e),
              (CloseService (serviceName sw), y), (MgrDisconnect, z)])"
  using assms
  by (auto simp: ControlService_def os_defs split: prod.splits option.splits if_splits)

lemma ControlService_failures:
  assumes "calls w = []" and "ControlService sw c to w = (r, w')"
  shows "not_retried (calls w')"
    and "r = None \<longrightarrow> (\<forall>(c, x) \<in> set (calls w'). x \<noteq> None \<longrightarrow> cleanup c)"
    and "\<forall>c e. (c, Some e) \<in> set (calls w') \<and> \<not> cleanup c \<longrightarrow>
           r = Some (error_context c @ e)"
proof -
  let ?n = "serviceName sw"
  let ?D = "300 * time_Millisecond"
  let ?f = "\<lambda>x. [(SleepCall ?D, None), (QueryCall ?n, x)]"
  let ?P = "not_retried (calls w') \<and>
    (r = None \<longrightarrow> (\<forall>(c, x) \<in> set (calls w'). x \<noteq> None \<longrightarrow> cleanup c)) \<and>
    (\<forall>c e. (c, Some e) \<in> set (calls w') \<and> \<not> cleanup c \<longrightarrow>
           r = Some (error_context c @ e))"
  have ?P
  proof (cases "fault w MgrConnect (clock w) = None \<and>
            fault w (OpenService ?n) (clock w) = None \<and> ?n \<in> services w \<and>
            fault w (ControlCall ?n c) (clock w) = None")
    case False
    from ControlService_other_paths [OF assms(2) False] assms(1) show ?thesis
      by (elim disjE exE conjE) auto
  next
    case True
    define w4 where "w4 = snd (await ?n to (clock w + 10 * time_Second) (status_at w (clock w))
            (w\<lparr>calls := calls w @ [(MgrConnect, None), (OpenService ?n, None),
               (ControlCall ?n c, None)]\<rparr>))"
    from True have t: "fault w MgrConnect (clock w) = None"
      "fault w (OpenService ?n) (clock w) = None" "?n \<in> services w"
      "fault w (ControlCall ?n c) (clock w) = None"
      by simp_all
    note p = ControlService_polling_path [OF assms(2) t w4_def]
    note a = p(1) and w' = p(2)
    from await_log [OF a] assms(1) obtain xs where
      l: "calls w4 = [(MgrConnect, None), (OpenService ?n, None), (ControlCall ?n c, None)] @
            concat (map ?f xs)"
      and b: "\<forall>x \<in> set (butlast xs). x = None"
      and e: "\<forall>e. Some e \<in> set xs \<longrightarrow> r = Some (''could not retrieve service status: '' @ e)"
      by auto
    let ?tail = "[(CloseService ?n, fault w4 (CloseService ?n) (clock w4)),
             (MgrDisconnect, fault w4 MgrDisconnect (clock w4))]"
    have c: "calls w' = [(MgrConnect, None), (OpenService ?n, None), (ControlCall ?n c, None)] @
            concat (map ?f xs) @ ?tail"
      using l w' by simp
    have nr: "not_retried (concat (map ?f xs) @ ?tail)"
    proof (cases "xs = []")
      case True
      then show ?thesis by simp
    next
      case False
      have "concat (map ?f (butlast xs @ [last xs])) @ ?tail =
          concat (map ?f (butlast xs)) @ (?f (last xs) @ ?tail)"
        by simp
      with False have "concat (map ?f xs) @ ?tail =
          concat (map ?f (butlast xs)) @ (?f (last xs) @ ?tail)"
        by simp
      moreover have "\<forall>x \<in> set (concat (map ?f (butlast xs))). snd x = None"
        using b by auto
      ultimately show ?thesis
        by (simp add: not_retried_append_ok)
    qed
    have 1: "not_retried (calls w')"
      unfolding c by (simp add: nr)
    have e': "x = None" if "r = None" "x \<in> set xs" for x
      using that e by (cases x) auto
    have 2: "r = None \<longrightarrow> (\<forall>(c, x) \<in> set (calls w'). x \<noteq> None \<longrightarrow> cleanup c)"
      unfolding c using e' by auto
    have 3: "\<forall>c e. (c, Some e) \<in> set (calls w') \<and> \<not> cleanup c \<longrightarrow>
           r = Some (error_context c @ e)"
      unfolding c using e by auto
    from 1 2 3 show ?thesis by blast
  qed
  then show "not_retried (calls w')"
    and "r = None \<longrightarrow> (\<forall>(c, x) \<in> set (calls w'). x \<noteq> None \<longrightarrow> cleanup c)"
    and "\<forall>c e. (c, Some e) \<in> set (calls w') \<and> \<not> cleanup c \<longrightarrow>
           r = Some (error_context c @ e)"
    by blast+
qed

text \<open>
  Claim C7, as stated, fails. In InstallService a failing open is the expected case: on
  a machine where the service does not exist the open call fails and InstallService goes
  on to create the service and returns nil. And the error of a failed connect is
  returned as it is, with no context added.
\<close>

theorem operations_report_failures_counterexample:
  "fst (InstallService ex_sw ex_world) = Returns None \<and>
   (OpenService ''demo'', Some ''The specified service does not exist as an installed service.'')
     \<in> set (calls (snd (InstallService ex_sw ex_world))) \<and>
   fst (StartService ex_sw (ex_world\<lparr>fault := failing [MgrConnect] ''Access is denied.''\<rparr>)) =
     Some ''Access is denied.''"
  by (simp add: InstallService_def StartService_def os_defs ex_world_simps)

text \<open>
  Claim C7, amended. In each of StartService, ControlService, RemoveService and
  InstallService, once a call has failed the same call is not made again. A failed call
  other than the closing of a handle makes StartService and ControlService return its
  error behind the context of \<open>error_context\<close> (none for connect), and so does
  RemoveService, except that a failed open makes it return "service ... is not
  installed" without the error. InstallService returns the error of a failed connect or
  create as it is and the error of a failed event-log registration behind its context;
  a failed open is what it expects before creating, and the error of the delete that
  follows a failed registration is dropped. StartService, ControlService and
  RemoveService return nil only if every call but the closing of handles succeeded, and
  InstallService only if, besides, the open failed.
\<close>

theorem operations_report_failures:
  assumes "calls w = []"
  shows "(\<forall>k e. (k, Some e) \<in> set (calls (snd (StartService sw w))) \<and> \<not> cleanup k \<longrightarrow>
            fst (StartService sw w) = Some (error_context k @ e)) \<and>
         (\<forall>k e. (k, Some e) \<in> set (calls (snd (ControlService sw c to w))) \<and> \<not> cleanup k \<longrightarrow>
            fst (ControlService sw c to w) = Some (error_context k @ e)) \<and>
         (\<forall>k e. (k, Some e) \<in> set (calls (snd (RemoveService sw w))) \<and> \<not> cleanup k \<longrightarrow>
            fst (RemoveService sw w) =
              (if k = OpenService (serviceName sw)
               then Some (''service '' @ serviceName sw @ '' is not installed'')
               else Some (error_context k @ e))) \<and>
         (\<forall>k e. (k, Some e) \<in> set (calls (snd (InstallService sw w))) \<and> \<not> cleanup k \<and>
            k \<noteq> OpenService (serviceName sw) \<and> k \<noteq> DeleteService (serviceName sw) \<longrightarrow>
            fst (InstallService sw w) = Returns (Some (error_context k @ e))) \<and>
         not_retried (calls (snd (StartService sw w))) \<and>
         not_retried (calls (snd (ControlService sw c to w))) \<and>
         not_retried (calls (snd (RemoveService sw w))) \<and>
         not_retried (calls (snd (InstallService sw w))) \<and>
         (fst (StartService sw w) = None \<longrightarrow>
            (\<forall>(k, x) \<in> set (calls (snd (StartService sw w))). x \<noteq> None \<longrightarrow> cleanup k)) \<and>
         (fst (ControlService sw c to w) = None \<longrightarrow>
            (\<forall>(k, x) \<in> set (calls (snd (ControlService sw c to w))). x \<noteq> None \<longrightarrow> cleanup k)) \<and>
         (fst (RemoveService sw w) = None \<longrightarrow>
            (\<forall>(k, x) \<in> set (calls (snd (RemoveService sw w))). x \<noteq> None \<longrightarrow> cleanup k)) \<and>
         (fst (InstallService sw w) = Returns None \<longrightarrow>
            (\<exists>e. (OpenService (serviceName sw), Some e) \<in> set (calls (snd (InstallService sw w)))) \<and>
            (\<forall>(k, x) \<in> set (calls (snd (InstallService sw w))). x \<noteq> None \<longrightarrow>
               cleanup k \<or> k = OpenService (serviceName sw)))"
proof -
  note s = StartService_failures [OF assms surjective_pairing]
  note c = ControlService_failures [OF assms surjective_pairing]
  note r = RemoveService_failures [OF assms surjective_pairing]
  note i = InstallService_failures [OF assms surjective_pairing]
  from s(3) c(3) r(3) i(3) s(1) c(1) r(1) i(1) s(2) c(2) r(2) i(2) show ?thesis
    by (intro conjI)
qed

theorem operations_report_failures_witness:
  "calls ex_world = [] \<and>
   (OpenService ''demo'', Some ''The specified service does not exist as an installed service.'')
     \<in> set (calls (snd (StartService ex_sw ex_world))) \<and>
   \<not> cleanup (OpenService ''demo'') \<and>
   fst (StartService ex_sw ex_world) =
     Some ''could not access service: The specified service does not exist as an installed service.''"
proof -
  have h: "calls ex_world = []" by (simp add: ex_world_def)
  have m: "(OpenService ''demo'',
        Some ''The specified service does not exist as an installed service.'')
      \<in> set (calls (snd (StartService ex_sw ex_world))) \<and> \<not> cleanup (OpenService ''demo'')"
    by (simp add: StartService_def os_defs ex_world_simps)
  note t = operations_report_failures [OF h, where sw = ex_sw, THEN conjunct1,
      THEN spec, THEN spec, THEN mp, OF m]
  from t have "fst (StartService ex_sw ex_world) =
     Some ''could not access service: The specified service does not exist as an installed service.''"
    by simp
  with h m show ?thesis by (intro conjI) simp_all
qed

text \<open>
  Claim C3, as stated, fails for start: StartService sends the start request and returns
  nil at once. It neither sleeps nor queries, whatever state the service is in.
\<close>

theorem ControlService_polls_counterexample:
  "fst (StartService ex_sw (ex_world\<lparr>services := {''demo''},
       status_at := ex_starting\<rparr>)) = None \<and>
   calls (snd (StartService ex_sw (ex_world\<lparr>services := {''demo''},
       status_at := ex_starting\<rparr>))) =
     [(MgrConnect, None), (OpenService ''demo'', None),
      (StartCall ''demo'' [''is'', ''manual-started''], None),
      (CloseService ''demo'', None), (MgrDisconnect, None)] \<and>
   clock (snd (StartService ex_sw (ex_world\<lparr>services := {''demo''},
       status_at := ex_starting\<rparr>))) = 0 \<and>
   State (status_at (ex_world\<lparr>services := {''demo''},
       status_at := ex_starting\<rparr>) 0) \<noteq> svc_Running"
  by (simp add: StartService_def os_defs ex_world_simps Status_zero_def svc_consts)

lemma poll_time_shift:
  "clock w1 = poll_time w (Suc 0) \<Longrightarrow> oversleep w1 = oversleep w \<Longrightarrow>
   poll_time w1 k = poll_time w (Suc k)"
  by (induction k) simp_all

lemma poll_time_ge: "clock w + k * 300000000 \<le> poll_time w k"
  by (induction k) simp_all

lemma polls_on_shift:
  assumes "clock w1 = poll_time w (Suc 0)" and "oversleep w1 = oversleep w"
    and "status_at w1 = status_at w" and "fault w1 = fault w"
  shows "polls_on w1 name to tmo k = polls_on w name to tmo (Suc k)"
  unfolding polls_on_def poll_time_shift [OF assms(1,2)] assms(3,4) ..

lemma ends_at_shift:
  assumes "clock w1 = poll_time w (Suc 0)" and "oversleep w1 = oversleep w"
    and "status_at w1 = status_at w" and "fault w1 = fault w"
    and "calls w1 = calls w @ [(SleepCall 300000000, None), (QueryCall name, None)]"
    and "ends_at w1 name to tmo n r w'"
  shows "ends_at w name to tmo (Suc n) r w'"
  using assms(6)
  unfolding ends_at_def poll_time_shift [OF assms(1,2)] assms(3,4,5)
  by (simp split: if_splits option.splits)

lemma await_exact:
  assumes "await name to tmo st w = (r, w')" and "st = status_at w (clock w)"
  shows "\<exists>n. (\<forall>k<n. polls_on w name to tmo k) \<and> ends_at w name to tmo n r w'"
  using assms
proof (induction name to tmo st w arbitrary: r w' rule: await.induct)
  case (1 name to tmo st w)
  note st = "1.prems"(2)
  show ?case
  proof (cases "State st = to")
    case True
    with "1.prems"(1) have "r = None" "w' = w"
      by (simp_all add: await.simps [of name to tmo st w])
    with True st have "ends_at w name to tmo 0 r w'"
      by (simp add: ends_at_def)
    then have "(\<forall>k<0. polls_on w name to tmo k) \<and> ends_at w name to tmo 0 r w'" by simp
    then show ?thesis by (rule exI)
  next
    case ne: False
    show ?thesis
    proof (cases "tmo < clock w")
      case True
      with ne "1.prems"(1)
      have "r = Some (''timeout waiting for service to go to state='' @ decimal (unat to))"
        and "w' = w"
        by (simp_all add: await.simps [of name to tmo st w] time_Now_def)
      with True ne st have "ends_at w name to tmo 0 r w'"
        by (simp add: ends_at_def)
      then have "(\<forall>k<0. polls_on w name to tmo k) \<and> ends_at w name to tmo 0 r w'" by simp
      then show ?thesis by (rule exI)
    next
      case le: False
      let ?t = "clock w + 300000000 + oversleep w (clock w)"
      let ?w1 = "w\<lparr>clock := ?t, calls := calls w @ [(SleepCall 300000000, None),
          (QueryCall name, fault w (QueryCall name) ?t)]\<rparr>"
      have ps: "s_Query name (time_Sleep (300 * time_Millisecond) w) =
          ((case fault w (QueryCall name) ?t of Some e \<Rightarrow> Inl e
            | None \<Rightarrow> Inr (status_at w ?t)), ?w1)"
        by (simp add: poll_step time_Millisecond_def)
      show ?thesis
      proof (cases "fault w (QueryCall name) ?t")
        case (Some e)
        with ne le ps "1.prems"(1) have "r = Some (''could not retrieve service status: '' @ e)"
          and "w' = ?w1"
          by (simp_all add: await.simps [of name to tmo st w] time_Now_def)
        with Some ne le st have "ends_at w name to tmo 0 r w'"
          by (simp add: ends_at_def)
        then have "(\<forall>k<0. polls_on w name to tmo k) \<and> ends_at w name to tmo 0 r w'" by simp
        then show ?thesis by (rule exI)
      next
        case None
        with ps have q: "s_Query name (time_Sleep (300 * time_Millisecond) w) =
            (Inr (status_at w ?t), ?w1)"
          by simp
        with ne le "1.prems"(1) have a: "await name to tmo (status_at w ?t) ?w1 = (r, w')"
          by (simp add: await.simps [of name to tmo st w] time_Now_def)
        from ne le have c: "State st \<noteq> to" "\<not> tmo < time_Now w"
          by (simp_all add: time_Now_def)
        have s: "status_at w ?t = status_at ?w1 (clock ?w1)" by simp
        have f: "clock ?w1 = poll_time w (Suc 0)" "oversleep ?w1 = oversleep w"
          "status_at ?w1 = status_at w" "fault ?w1 = fault w"
          by simp_all
        have g: "calls ?w1 = calls w @ [(SleepCall 300000000, None), (QueryCall name, None)]"
          using None by simp
        from "1.IH" [OF c q [symmetric] refl a s] obtain n where
          n1: "\<forall>k<n. polls_on ?w1 name to tmo k" and n2: "ends_at ?w1 name to tmo n r w'"
          by blast
        have c0: "polls_on w name to tmo 0"
          using ne le None st by (simp add: polls_on_def)
        have "\<forall>k<Suc n. polls_on w name to tmo k"
        proof (intro allI impI)
          fix k assume k: "k < Suc n"
          show "polls_on w name to tmo k"
          proof (cases k)
            case 0
            with c0 show ?thesis by simp
          next
            case (Suc j)
            with k n1 have "polls_on ?w1 name to tmo j" by simp
            then show ?thesis
              unfolding Suc polls_on_shift [OF f] .
          qed
        qed
        moreover have "ends_at w name to tmo (Suc n) r w'"
          by (rule ends_at_shift [OF f g n2])
        ultimately have "(\<forall>k<Suc n. polls_on w name to tmo k) \<and>
            ends_at w name to tmo (Suc n) r w'" by (rule conjI)
        then show ?thesis by (rule exI)
      qed
    qed
  qed
qed


lemma poll_time_cong:
  "clock v = clock w \<Longrightarrow> oversleep v = oversleep w \<Longrightarrow> poll_time v k = poll_time w k"
  by (induction k) simp_all

text \<open>
  Claim C3, amended. When issuing stop, pause or continue, that is in ControlService,
  once the control has been sent the state is awaited in a polling loop. The loop looks
  at the state when the control returns and then after each sleep of 300 ms. As long as
  the state seen is not the target, the deadline of 10 seconds after the control has not
  passed and the next query succeeds, it sleeps 300 ms and queries again. It ends in the
  first round in which that is not so: with nil, and without another sleep or query, as
  soon as the target state is seen; else with the timeout error when more than 10
  seconds have passed; else with the error of the failed query. There are at most 34
  queries. StartService sends the start request and returns what it gives, with no sleep
  and no query: it does not wait for any state.
\<close>

theorem ControlService_polls:
  assumes "ControlService sw c to w = (r, w')"
    and "fault w MgrConnect (clock w) = None"
    and "fault w (OpenService (serviceName sw)) (clock w) = None"
    and "serviceName sw \<in> services w"
    and "fault w (ControlCall (serviceName sw) c) (clock w) = None"
  shows "(\<exists>n.
           (\<forall>k<n. State (status_at w (poll_time w k)) \<noteq> to \<and>
              poll_time w k \<le> clock w + 10000000000 \<and>
              fault w (QueryCall (serviceName sw)) (poll_time w (Suc k)) = None) \<and>
           n \<le> 34 \<and>
           (State (status_at w (poll_time w n)) = to \<and> r = None \<and>
              clock w' = poll_time w n \<and>
              calls w' = calls w @
                [(MgrConnect, None), (OpenService (serviceName sw), None),
                 (ControlCall (serviceName sw) c, None)] @
                concat (replicate n [(SleepCall 300000000, None),
                                     (QueryCall (serviceName sw), None)]) @
                [(CloseService (serviceName sw),
                    fault w (CloseService (serviceName sw)) (clock w')),
                 (MgrDisconnect, fault w MgrDisconnect (clock w'))] \<or>
            State (status_at w (poll_time w n)) \<noteq> to \<and>
              clock w + 10000000000 < poll_time w n \<and>
              r = Some (''timeout waiting for service to go to state='' @ decimal (unat to)) \<and>
              clock w' = poll_time w n \<and>
              calls w' = calls w @
                [(MgrConnect, None), (OpenService (serviceName sw), None),
                 (ControlCall (serviceName sw) c, None)] @
                concat (replicate n [(SleepCall 300000000, None),
                                     (QueryCall (serviceName sw), None)]) @
                [(CloseService (serviceName sw),
                    fault w (CloseService (serviceName sw)) (clock w')),
                 (MgrDisconnect, fault w MgrDisconnect (clock w'))] \<or>
            State (status_at w (poll_time w n)) \<noteq> to \<and>
              poll_time w n \<le> clock w + 10000000000 \<and> n < 34 \<and>
              (\<exists>e. fault w (QueryCall (serviceName sw)) (poll_time w (Suc n)) = Some e \<and>
                 r = Some (''could not retrieve service status: '' @ e) \<and>
                 clock w' = poll_time w (Suc n) \<and>
                 calls w' = calls w @
                   [(MgrConnect, None), (OpenService (serviceName sw), None),
                    (ControlCall (serviceName sw) c, None)] @
                   concat (replicate n [(SleepCall 300000000, None),
                                        (QueryCall (serviceName sw), None)]) @
                   [(SleepCall 300000000, None), (QueryCall (serviceName sw), Some e)] @
                   [(CloseService (serviceName sw),
                       fault w (CloseService (serviceName sw)) (clock w')),
                    (MgrDisconnect, fault w MgrDisconnect (clock w'))]))) \<and>
         calls (snd (StartService sw w)) = calls w @
           [(MgrConnect, None), (OpenService (serviceName sw), None),
            (StartCall (serviceName sw) [''is'', ''manual-started''],
               fault w (StartCall (serviceName sw) [''is'', ''manual-started'']) (clock w)),
            (CloseService (serviceName sw), fault w (CloseService (serviceName sw)) (clock w)),
            (MgrDisconnect, fault w MgrDisconnect (clock w))] \<and>
         clock (snd (StartService sw w)) = clock w \<and>
         fst (StartService sw w) =
           (case fault w (StartCall (serviceName sw) [''is'', ''manual-started'']) (clock w) of
              None \<Rightarrow> None
            | Some e \<Rightarrow> Some (''could not start service: '' @ e))"
proof -
  let ?n = "serviceName sw"
  let ?dl = "clock w + 10000000000"
  let ?w3 = "w\<lparr>calls := calls w @ [(MgrConnect, None), (OpenService ?n, None),
               (ControlCall ?n c, None)]\<rparr>"
  let ?P = "[(SleepCall 300000000, None), (QueryCall ?n, None :: string option)]"
  let ?head = "[(MgrConnect, None :: string option), (OpenService ?n, None),
               (ControlCall ?n c, None)]"
  let ?tail = "[(CloseService ?n, fault w (CloseService ?n) (clock w')),
               (MgrDisconnect, fault w MgrDisconnect (clock w'))]"
  define w4 where "w4 = snd (await ?n to (clock w + 10 * time_Second) (status_at w (clock w)) ?w3)"
  note p = ControlService_polling_path [OF assms w4_def]
  have dl: "clock w + 10 * time_Second = ?dl"
    by (simp add: time_Second_def time_Millisecond_def)
  note a = p(1) [unfolded dl]
  have st: "status_at w (clock w) = status_at ?w3 (clock ?w3)" by simp
  from await_frame [OF a] have f: "fault w4 = fault w" by simp
  from p(2) have cl: "clock w' = clock w4" by simp
  from p(2) f cl have cs: "calls w' = calls w4 @ ?tail" by simp
  have pt: "poll_time ?w3 k = poll_time w k" for k
    by (rule poll_time_cong) simp_all
  from await_exact [OF a st] obtain n where
    n1: "\<forall>k<n. polls_on ?w3 ?n to ?dl k" and n2: "ends_at ?w3 ?n to ?dl n r w4"
    by blast
  have A: "\<forall>k<n. State (status_at w (poll_time w k)) \<noteq> to \<and> poll_time w k \<le> ?dl \<and>
              fault w (QueryCall ?n) (poll_time w (Suc k)) = None"
    using n1 unfolding polls_on_def pt by simp
  have le: "m \<le> 33" if "poll_time w m \<le> ?dl" for m
  proof -
    from that poll_time_ge [of w m] have "m * 300000000 \<le> (10000000000::nat)" by linarith
    then show ?thesis by simp
  qed
  have B: "n \<le> 34"
  proof (cases n)
    case 0
    then show ?thesis by simp
  next
    case (Suc m)
    with A have "poll_time w m \<le> ?dl" by simp
    from le [OF this] Suc show ?thesis by simp
  qed
  let ?D1 = "State (status_at w (poll_time w n)) = to \<and> r = None \<and>
              clock w' = poll_time w n \<and>
              calls w' = calls w @ ?head @ concat (replicate n ?P) @ ?tail"
  let ?D2 = "State (status_at w (poll_time w n)) \<noteq> to \<and> ?dl < poll_time w n \<and>
              r = Some (''timeout waiting for service to go to state='' @ decimal (unat to)) \<and>
              clock w' = poll_time w n \<and>
              calls w' = calls w @ ?head @ concat (replicate n ?P) @ ?tail"
  let ?D3 = "State (status_at w (poll_time w n)) \<noteq> to \<and> poll_time w n \<le> ?dl \<and> n < 34 \<and>
              (\<exists>e. fault w (QueryCall ?n) (poll_time w (Suc n)) = Some e \<and>
                 r = Some (''could not retrieve service status: '' @ e) \<and>
                 clock w' = poll_time w (Suc n) \<and>
                 calls w' = calls w @ ?head @ concat (replicate n ?P) @
                   [(SleepCall 300000000, None), (QueryCall ?n, Some e)] @ ?tail)"
  note e = n2 [unfolded ends_at_def pt]
  have D: "?D1 \<or> ?D2 \<or> ?D3"
  proof (cases "State (status_at w (poll_time w n)) = to")
    case True
    with e have "r = None" "clock w4 = poll_time w n"
      "calls w4 = calls ?w3 @ concat (replicate n ?P)"
      by simp_all
    with True cl cs have ?D1 by simp
    then show ?thesis by (rule disjI1)
  next
    case ne: False
    show ?thesis
    proof (cases "?dl < poll_time w n")
      case True
      with ne e
      have "r = Some (''timeout waiting for service to go to state='' @ decimal (unat to))"
        "clock w4 = poll_time w n" "calls w4 = calls ?w3 @ concat (replicate n ?P)"
        by simp_all
      with True ne cl cs have ?D2 by simp
      then show ?thesis by (intro disjI2 disjI1)
    next
      case False
      then have d: "poll_time w n \<le> ?dl" by simp
      from le [OF d] have n34: "n < 34" by simp
      from ne False e obtain err where
        err: "fault w (QueryCall ?n) (poll_time w (Suc n)) = Some err"
        and "r = Some (''could not retrieve service status: '' @ err)"
        and "clock w4 = poll_time w (Suc n)"
        and "calls w4 = calls ?w3 @ concat (replicate n ?P) @
               [(SleepCall 300000000, None), (QueryCall ?n, Some err)]"
        by (cases "fault w (QueryCall ?n) (poll_time w (Suc n))") simp_all
      with ne d n34 cl cs have ?D3 by simp
      then show ?thesis by (intro disjI2)
    qed
  qed
  from A B D have 1: "\<exists>n. (\<forall>k<n. State (status_at w (poll_time w k)) \<noteq> to \<and>
              poll_time w k \<le> ?dl \<and>
              fault w (QueryCall ?n) (poll_time w (Suc k)) = None) \<and> n \<le> 34 \<and>
           (State (status_at w (poll_time w n)) = to \<and> r = None \<and>
              clock w' = poll_time w n \<and>
              calls w' = calls w @ ?head @ concat (replicate n ?P) @ ?tail \<or>
            State (status_at w (poll_time w n)) \<noteq> to \<and> ?dl < poll_time w n \<and>
              r = Some (''timeout waiting for service to go to state='' @ decimal (unat to)) \<and>
              clock w' = poll_time w n \<and>
              calls w' = calls w @ ?head @ concat (replicate n ?P) @ ?tail \<or>
            State (status_at w (poll_time w n)) \<noteq> to \<and> poll_time w n \<le> ?dl \<and> n < 34 \<and>
              (\<exists>e. fault w (QueryCall ?n) (poll_time w (Suc n)) = Some e \<and>
                 r = Some (''could not retrieve service status: '' @ e) \<and>
                 clock w' = poll_time w (Suc n) \<and>
                 calls w' = calls w @ ?head @ concat (replicate n ?P) @
                   [(SleepCall 300000000, None), (QueryCall ?n, Some e)] @ ?tail))"
    by (intro exI [of _ n] conjI)
  have 2: "calls (snd (StartService sw w)) = calls w @
           [(MgrConnect, None), (OpenService ?n, None),
            (StartCall ?n [''is'', ''manual-started''],
               fault w (StartCall ?n [''is'', ''manual-started'']) (clock w)),
            (CloseService ?n, fault w (CloseService ?n) (clock w)),
            (MgrDisconnect, fault w MgrDisconnect (clock w))]"
    using assms(2-4) by (simp add: StartService_def os_defs split: option.splits)
  have 3: "clock (snd (StartService sw w)) = clock w"
    using assms(2-4) by (simp add: StartService_def os_defs split: option.splits)
  have 4: "fst (StartService sw w) =
           (case fault w (StartCall ?n [''is'', ''manual-started'']) (clock w) of
              None \<Rightarrow> None
            | Some e \<Rightarrow> Some (''could not start service: '' @ e))"
    using assms(2-4) by (simp add: StartService_def os_defs split: option.splits)
  from 1 2 3 4 show ?thesis by (intro conjI)
qed


theorem ControlService_polls_witness:
  "fault (ex_world\<lparr>services := {''demo''}, status_at := stops_at 600000000\<rparr>) MgrConnect 0 = None \<and>
   serviceName ex_sw \<in> services (ex_world\<lparr>services := {''demo''},
       status_at := stops_at 600000000\<rparr>) \<and>
   ControlService ex_sw svc_Stop svc_Stopped (ex_world\<lparr>services := {''demo''},
       status_at := stops_at 600000000\<rparr>) =
     (None, ex_world\<lparr>services := {''demo''}, status_at := stops_at 600000000,
       clock := 600000000,
       calls := [(MgrConnect, None), (OpenService ''demo'', None),
         (ControlCall ''demo'' svc_Stop, None),
         (SleepCall 300000000, None), (QueryCall ''demo'', None),
         (SleepCall 300000000, None), (QueryCall ''demo'', None),
         (CloseService ''demo'', None), (MgrDisconnect, None)]\<rparr>) \<and>
   (\<exists>n. n \<le> 34 \<and>
      State (status_at (ex_world\<lparr>services := {''demo''}, status_at := stops_at 600000000\<rparr>)
        (poll_time (ex_world\<lparr>services := {''demo''}, status_at := stops_at 600000000\<rparr>) n)) =
        svc_Stopped \<and>
      poll_time (ex_world\<lparr>services := {''demo''}, status_at := stops_at 600000000\<rparr>) n =
        600000000)"
proof -
  let ?w = "ex_world\<lparr>services := {''demo''}, status_at := stops_at 600000000\<rparr>"
  let ?w' = "ex_world\<lparr>services := {''demo''}, status_at := stops_at 600000000,
       clock := 600000000,
       calls := [(MgrConnect, None), (OpenService ''demo'', None),
         (ControlCall ''demo'' svc_Stop, None),
         (SleepCall 300000000, None), (QueryCall ''demo'', None),
         (SleepCall 300000000, None), (QueryCall ''demo'', None),
         (CloseService ''demo'', None), (MgrDisconnect, None)]\<rparr>"
  have cw: "clock ?w = 0" by (simp add: ex_world_def)
  have r: "ControlService ex_sw svc_Stop svc_Stopped ?w = (None, ?w')"
    by (simp add: ControlService_def await.simps os_defs ex_world_simps Status_zero_def
        svc_consts time_Millisecond_def time_Second_def)
  have h1: "fault ?w MgrConnect (clock ?w) = None"
    and h2: "fault ?w (OpenService (serviceName ex_sw)) (clock ?w) = None"
    and h3: "serviceName ex_sw \<in> services ?w"
    and h4: "fault ?w (ControlCall (serviceName ex_sw) svc_Stop) (clock ?w) = None"
    by (simp_all add: ex_world_def ex_sw_def)
  note t = ControlService_polls [OF r h1 h2 h3 h4, THEN conjunct1]
  from t obtain n where n: "n \<le> 34"
    and d: "State (status_at ?w (poll_time ?w n)) = svc_Stopped \<and> clock ?w' = poll_time ?w n"
    by (elim exE conjE disjE) simp_all
  from d have "State (status_at ?w (poll_time ?w n)) = svc_Stopped \<and>
      poll_time ?w n = 600000000"
    by simp
  with n have e: "\<exists>n. n \<le> 34 \<and> State (status_at ?w (poll_time ?w n)) = svc_Stopped \<and>
      poll_time ?w n = 600000000"
    by blast
  from h1 cw have g1: "fault ?w MgrConnect 0 = None" by simp
  from g1 h3 r e show ?thesis by (intro conjI)
qed


text \<open>
  The deadline is checked before each sleep and not after the query. A target state that
  shows only at the poll made 10.2 seconds after the control was sent therefore still
  ends the loop with nil.
\<close>

lemma ControlService_last_poll_after_deadline:
  "fst (ControlService ex_sw svc_Stop svc_Stopped (ex_world\<lparr>services := {''demo''},
       status_at := stops_at (10 * time_Second + 1)\<rparr>)) = None \<and>
   clock (snd (ControlService ex_sw svc_Stop svc_Stopped (ex_world\<lparr>services := {''demo''},
       status_at := stops_at (10 * time_Second + 1)\<rparr>))) =
     10200 * time_Millisecond"
  by (simp add: ControlService_def await.simps os_defs ex_world_simps Status_zero_def
        svc_consts time_Millisecond_def time_Second_def)


section \<open>Properties of the command line\<close>


















end
